theory Spec2Isabelle
  imports Complex_Main
begin

section \<open>JavaScript numbers\<close>

text \<open>
  The spectrogram library computes on JavaScript numbers. A \<open>number\<close> of the model is a
  real number, one of the two infinities, or \<open>NaN\<close>; the operations follow IEEE 754
  on these values (a quotient by zero is an infinity or \<open>NaN\<close>, \<open>NaN\<close> propagates and
  compares false with everything). What the model leaves out: rounding to 32 or 64 bit
  floats and overflow (a finite result is the exact real), and the sign of zero (no
  denominator of the modelled code is a computed negative zero).
\<close>

datatype number = Num real | PosInf | NegInf | NaN

fun number_add :: "number \<Rightarrow> number \<Rightarrow> number" where
  "number_add (Num a) (Num b) = Num (a + b)"
| "number_add NaN y = NaN"
| "number_add x NaN = NaN"
| "number_add PosInf NegInf = NaN"
| "number_add NegInf PosInf = NaN"
| "number_add PosInf y = PosInf"
| "number_add x PosInf = PosInf"
| "number_add NegInf y = NegInf"
| "number_add x NegInf = NegInf"

fun number_neg :: "number \<Rightarrow> number" where
  "number_neg (Num a) = Num (- a)"
| "number_neg PosInf = NegInf"
| "number_neg NegInf = PosInf"
| "number_neg NaN = NaN"

text \<open>The infinity of the sign of \<open>s\<close>; for \<open>s = 0\<close> (as in \<open>0 * Infinity\<close>, \<open>0 / 0\<close>) not a number.\<close>

definition signedInf :: "real \<Rightarrow> number" where
  "signedInf s = (if s > 0 then PosInf else if s < 0 then NegInf else NaN)"

fun number_mul :: "number \<Rightarrow> number \<Rightarrow> number" where
  "number_mul (Num a) (Num b) = Num (a * b)"
| "number_mul NaN y = NaN"
| "number_mul x NaN = NaN"
| "number_mul PosInf (Num b) = signedInf b"
| "number_mul NegInf (Num b) = signedInf (- b)"
| "number_mul (Num a) PosInf = signedInf a"
| "number_mul (Num a) NegInf = signedInf (- a)"
| "number_mul PosInf PosInf = PosInf"
| "number_mul NegInf NegInf = PosInf"
| "number_mul PosInf NegInf = NegInf"
| "number_mul NegInf PosInf = NegInf"

fun number_div :: "number \<Rightarrow> number \<Rightarrow> number" where
  "number_div (Num a) (Num b) = (if b = 0 then signedInf a else Num (a / b))"
| "number_div NaN y = NaN"
| "number_div x NaN = NaN"
| "number_div (Num a) y = Num 0"
| "number_div PosInf (Num b) = (if b < 0 then NegInf else PosInf)"
| "number_div NegInf (Num b) = (if b < 0 then PosInf else NegInf)"
| "number_div x y = NaN"

fun number_less :: "number \<Rightarrow> number \<Rightarrow> bool" where
  "number_less (Num a) (Num b) = (a < b)"
| "number_less NaN y = False"
| "number_less x NaN = False"
| "number_less x NegInf = False"
| "number_less PosInf y = False"
| "number_less x y = True"

fun number_le :: "number \<Rightarrow> number \<Rightarrow> bool" where
  "number_le (Num a) (Num b) = (a \<le> b)"
| "number_le NaN y = False"
| "number_le x NaN = False"
| "number_le NegInf y = True"
| "number_le x PosInf = True"
| "number_le x y = False"

text \<open>
  The arithmetic operators and the comparisons of the source are written with the usual
  symbols; numerals and decimal constants denote the finite numbers.
\<close>

instantiation number :: "{zero, one, plus, minus, uminus, times, inverse, ord}"
begin

definition zero_number :: number where
  "zero_number = Num 0"

definition one_number :: number where
  "one_number = Num 1"

definition plus_number :: "number \<Rightarrow> number \<Rightarrow> number" where
  "plus_number x y = number_add x y"

definition uminus_number :: "number \<Rightarrow> number" where
  "uminus_number x = number_neg x"

definition minus_number :: "number \<Rightarrow> number \<Rightarrow> number" where
  "minus_number x y = number_add x (number_neg y)"

definition times_number :: "number \<Rightarrow> number \<Rightarrow> number" where
  "times_number x y = number_mul x y"

definition divide_number :: "number \<Rightarrow> number \<Rightarrow> number" where
  "divide_number x y = number_div x y"

definition inverse_number :: "number \<Rightarrow> number" where
  "inverse_number x = number_div (Num 1) x"

definition less_number :: "number \<Rightarrow> number \<Rightarrow> bool" where
  "less_number x y = number_less x y"

definition less_eq_number :: "number \<Rightarrow> number \<Rightarrow> bool" where
  "less_eq_number x y = number_le x y"

instance ..

end

instance number :: comm_monoid_add
proof
  fix a b c :: number
  show "a + b + c = a + (b + c)"
    by (cases a; cases b; cases c; simp add: plus_number_def)
  show "a + b = b + a"
    by (cases a; cases b; simp add: plus_number_def)
  show "0 + a = a"
    by (cases a; simp add: plus_number_def zero_number_def)
qed

instance number :: numeral ..

instance number :: power ..

text \<open>A size or an index as a number.\<close>

definition num :: "nat \<Rightarrow> number" where
  "num n = Num (real n)"

fun Math_floor :: "number \<Rightarrow> number" where
  "Math_floor (Num a) = Num (of_int \<lfloor>a\<rfloor>)"
| "Math_floor x = x"

fun Math_sqrt :: "number \<Rightarrow> number" where
  "Math_sqrt (Num a) = (if a < 0 then NaN else Num (sqrt a))"
| "Math_sqrt PosInf = PosInf"
| "Math_sqrt x = NaN"

fun Math_log :: "number \<Rightarrow> number" where
  "Math_log (Num a) = (if a < 0 then NaN else if a = 0 then NegInf else Num (ln a))"
| "Math_log PosInf = PosInf"
| "Math_log x = NaN"

fun Math_cos :: "number \<Rightarrow> number" where
  "Math_cos (Num a) = Num (cos a)"
| "Math_cos x = NaN"

fun Math_sin :: "number \<Rightarrow> number" where
  "Math_sin (Num a) = Num (sin a)"
| "Math_sin x = NaN"

fun Math_max :: "number \<Rightarrow> number \<Rightarrow> number" where
  "Math_max NaN y = NaN"
| "Math_max x NaN = NaN"
| "Math_max x y = (if number_less x y then y else x)"

definition Math_PI :: number where
  "Math_PI = Num pi"

text \<open>
  \<open>x | 0\<close> on a finite number: truncation towards zero, then wrap-around to a signed
  32-bit integer.
\<close>

definition toInt32 :: "real \<Rightarrow> int" where
  "toInt32 x =
     (let n = (if x < 0 then - \<lfloor>- x\<rfloor> else \<lfloor>x\<rfloor>);
          m = n mod 2 ^ 32
      in if m \<ge> 2 ^ 31 then m - 2 ^ 32 else m)"

text \<open>\<open>x | 0\<close> on a number: an infinity and \<open>NaN\<close> give 0.\<close>

fun bitOrZero :: "number \<Rightarrow> int" where
  "bitOrZero (Num x) = toInt32 x"
| "bitOrZero x = 0"

section \<open>Data model\<close>

text \<open>
  Sizes, counts and indices that the callers pass as whole numbers (the transform size,
  the hop size, the zero-padding factor, the target width) are modelled as \<open>nat\<close>; the
  sample values, the sample rate, the gain and the range are numbers. The transform
  size is even (a power of two in every use), so \<open>fftSize / 2\<close> is the integer quotient.
  The clock reads of \<open>perf.ts\<close> (the timing fields) are left out.
\<close>

datatype WindowType = Hann | Hamming | Blackman | BlackmanHarris | Rectangular

datatype WindowVariant = StandardVariant | Derivative | TimeRamped

datatype SpectrogramAlgorithm = Standard | Reassignment

text \<open>
  The outcomes of a generation call other than a result with a whole number of frames:
  \<^item> \<open>AudioTooShort\<close>: the call throws \<open>Error("Audio too short for the given FFT size")\<close>;
  \<^item> \<open>InvalidArrayLength\<close>: the frame count is infinite and the allocation
    \<open>new Float32Array(numFrames * numBins)\<close> throws a \<open>RangeError\<close>;
  \<^item> \<open>FrameCountNaN\<close>: the frame count is \<open>NaN\<close>; nothing is thrown, the allocation
    yields an empty array, the frame loop does not run and the call returns an empty
    matrix with \<open>numFrames = NaN\<close>. The result records of the model hold a natural
    number of frames, so this return is kept apart from them.
\<close>

datatype error = AudioTooShort | InvalidArrayLength | FrameCountNaN

text \<open>
  The transform context: \<open>ctx_run\<close> maps the contents of the input buffer to the
  contents of the output buffer (interleaved real and imaginary parts), read by index.
\<close>

record FFTContext =
  ctx_size :: nat
  ctx_isReal :: bool
  ctx_run :: "number list \<Rightarrow> nat \<Rightarrow> number"

record SpectrogramOptions =
  opt_samples :: "number list"
  opt_sampleRate :: number
  opt_fftContext :: FFTContext
  opt_hopSize :: "nat option"
  opt_windowType :: "WindowType option"
  opt_zeroPadding :: "nat option"
  opt_gain :: "number option"
  opt_range :: "number option"
  opt_algorithm :: "SpectrogramAlgorithm option"
  opt_targetWidth :: "nat option"

text \<open>
  The record of a spectrogram is polymorphic in the type of its numbers: the generation
  produces matrices of \<open>number\<close>, the rendering is modelled on matrices of finite
  numbers (\<open>real\<close>).
\<close>

record 'a SpectrogramData =
  data :: "'a list"
  numFrames :: nat
  numBins :: nat
  fftSize :: nat
  windowSize :: nat
  hopSize :: nat
  sampleRate :: 'a
  duration :: 'a

section \<open>Window functions (window-functions.ts)\<close>

fun WINDOW_COHERENT_GAIN :: "WindowType \<Rightarrow> number" where
  "WINDOW_COHERENT_GAIN Hann = 0.5"
| "WINDOW_COHERENT_GAIN Hamming = 0.54"
| "WINDOW_COHERENT_GAIN Blackman = 0.42"
| "WINDOW_COHERENT_GAIN BlackmanHarris = 0.35875"
| "WINDOW_COHERENT_GAIN Rectangular = 1.0"

fun WINDOW_FUNCTIONS :: "WindowType \<Rightarrow> number \<Rightarrow> number \<Rightarrow> number" where
  "WINDOW_FUNCTIONS Hann i N = 0.5 * (1 - Math_cos ((2 * Math_PI * i) / (N - 1)))"
| "WINDOW_FUNCTIONS Hamming i N = 0.54 - 0.46 * Math_cos ((2 * Math_PI * i) / (N - 1))"
| "WINDOW_FUNCTIONS Blackman i N =
     0.42 - 0.5 * Math_cos ((2 * Math_PI * i) / (N - 1))
       + 0.08 * Math_cos ((4 * Math_PI * i) / (N - 1))"
| "WINDOW_FUNCTIONS BlackmanHarris i N =
     0.35875 - 0.48829 * Math_cos ((2 * Math_PI * i) / (N - 1))
       + 0.14128 * Math_cos ((4 * Math_PI * i) / (N - 1))
       - 0.01168 * Math_cos ((6 * Math_PI * i) / (N - 1))"
| "WINDOW_FUNCTIONS Rectangular i N = 1"

fun WINDOW_DERIVATIVES :: "WindowType \<Rightarrow> number \<Rightarrow> number \<Rightarrow> number" where
  "WINDOW_DERIVATIVES Hann i N = (Math_PI / (N - 1)) * Math_sin ((2 * Math_PI * i) / (N - 1))"
| "WINDOW_DERIVATIVES Hamming i N =
     0.46 * ((2 * Math_PI) / (N - 1)) * Math_sin ((2 * Math_PI * i) / (N - 1))"
| "WINDOW_DERIVATIVES Blackman i N =
     0.5 * ((2 * Math_PI) / (N - 1)) * Math_sin ((2 * Math_PI * i) / (N - 1))
       - 0.08 * ((4 * Math_PI) / (N - 1)) * Math_sin ((4 * Math_PI * i) / (N - 1))"
| "WINDOW_DERIVATIVES BlackmanHarris i N =
     0.48829 * ((2 * Math_PI) / (N - 1)) * Math_sin ((2 * Math_PI * i) / (N - 1))
       - 0.14128 * ((4 * Math_PI) / (N - 1)) * Math_sin ((4 * Math_PI * i) / (N - 1))
       + 0.01168 * ((6 * Math_PI) / (N - 1)) * Math_sin ((6 * Math_PI * i) / (N - 1))"
| "WINDOW_DERIVATIVES Rectangular i N = 0"

fun WINDOW_TIME_RAMPED :: "WindowType \<Rightarrow> number \<Rightarrow> number \<Rightarrow> number" where
  "WINDOW_TIME_RAMPED Rectangular i N = i - (N - 1) / 2"
| "WINDOW_TIME_RAMPED t i N = (i - (N - 1) / 2) * WINDOW_FUNCTIONS t i N"

text \<open>
  \<open>getWindowCoefficients\<close> memoises its result per (type, size, variant); the cache
  does not change the value returned, so the model computes the table. For a window of
  one sample every quotient by \<open>N - 1\<close> is a quotient by zero: the table of a window
  other than the rectangular one is then \<open>[NaN]\<close>.
\<close>

definition getWindowCoefficients :: "WindowType \<Rightarrow> nat \<Rightarrow> WindowVariant \<Rightarrow> number list" where
  "getWindowCoefficients t sz variant =
     (let fn = (case variant of
                  Derivative \<Rightarrow> WINDOW_DERIVATIVES t
                | TimeRamped \<Rightarrow> WINDOW_TIME_RAMPED t
                | StandardVariant \<Rightarrow> WINDOW_FUNCTIONS t)
      in map (\<lambda>i. fn (num i) (num sz)) [0..<sz])"

text \<open>
  \<open>applyWindowCoefficients\<close> writes the first \<open>frame.length\<close> entries of the output
  buffer and leaves the rest of the buffer as it was.
\<close>

definition applyWindowCoefficients ::
  "number list \<Rightarrow> number list \<Rightarrow> number list \<Rightarrow> number list" where
  "applyWindowCoefficients frame coefficients output =
     fold (\<lambda>i result. result[i := frame ! i * coefficients ! i]) [0..<length frame] output"

section \<open>Spectrogram generation (spectrogram.ts)\<close>

definition DB_SCALE_FACTOR :: real where
  "DB_SCALE_FACTOR = 20 / ln 10"

text \<open>
  \<open>magnitudeToDb\<close> as the source computes it, on a number: \<open>Math.log\<close> of a negative
  number is \<open>NaN\<close>, of 0 it is \<open>-Infinity\<close>.
\<close>

definition magnitudeToDbOf :: "number \<Rightarrow> number" where
  "magnitudeToDbOf magnitude = Num DB_SCALE_FACTOR * Math_log (magnitude + Num (1 / 10 ^ 10))"

text \<open>
  Its value on a finite magnitude that is not negative, as a real number (lemma
  \<open>magnitudeToDbOf_Num\<close>).
\<close>

definition magnitudeToDb :: "real \<Rightarrow> real" where
  "magnitudeToDb magnitude = DB_SCALE_FACTOR * ln (magnitude + 1 / 10 ^ 10)"

definition computeMagnitudeInPlace :: "number list \<Rightarrow> nat \<Rightarrow> number list" where
  "computeMagnitudeInPlace complexOutput nBins =
     map (\<lambda>i. let re = complexOutput ! (i * 2); im = complexOutput ! (i * 2 + 1)
               in Math_sqrt (re * re + im * im)) [0..<nBins]"

text \<open>\<open>data[i] || 0\<close>: a missing entry, \<open>NaN\<close> and 0 give 0.\<close>

definition orZero :: "number list \<Rightarrow> nat \<Rightarrow> number" where
  "orZero xs i = (if i < length xs \<and> xs ! i \<noteq> NaN then xs ! i else 0)"

text \<open>
  \<open>runFFT\<close>: a real transform receives the data as it is, a complex one receives
  (sample, 0) pairs; the result copies the first \<open>2 * numBins\<close> entries of the output
  buffer.
\<close>

definition runFFT :: "FFTContext \<Rightarrow> number list \<Rightarrow> nat \<Rightarrow> number list" where
  "runFFT fftContext samples_in fftSz =
     (let inputBuffer =
            (if ctx_isReal fftContext then samples_in
             else concat (map (\<lambda>i. [orZero samples_in i, 0]) [0..<fftSz]));
          outputBuffer = ctx_run fftContext inputBuffer;
          nBins = fftSz div 2 + 1
      in map outputBuffer [0..<nBins * 2])"

text \<open>\<open>samples.subarray(begin, end)\<close> for \<open>0 \<le> begin \<le> end\<close>: clipped to the array.\<close>

definition subarray :: "'a list \<Rightarrow> nat \<Rightarrow> nat \<Rightarrow> 'a list" where
  "subarray xs begin end = take (end - begin) (drop begin xs)"

text \<open>\<open>windowSize = Math.floor(fftSize / zeroPadding)\<close>: infinite for a zero-padding factor 0.\<close>

definition windowSizeOf :: "nat \<Rightarrow> nat \<Rightarrow> number" where
  "windowSizeOf fftSz zeroPad = Math_floor (num fftSz / num zeroPad)"

text \<open>
  The frame count both algorithms compute,
  \<open>Math.floor((samples.length - windowSize) / hopSize) + 1\<close>: for a hop size 0 it is
  \<open>Infinity\<close>, \<open>NaN\<close> or \<open>-Infinity\<close>.
\<close>

definition frameCount :: "nat \<Rightarrow> number \<Rightarrow> nat \<Rightarrow> number" where
  "frameCount numSamples winSize hop = Math_floor ((num numSamples - winSize) / num hop) + 1"

text \<open>
  The natural number that a number stands for where the code uses it as a size or a
  count: the integer part of a finite number that is not negative. It is the length of
  \<open>new Float32Array(n)\<close>, which is 0 for \<open>NaN\<close> as well. The generators reach an
  allocation only with such a number, or with an infinite frame count, which they
  single out.
\<close>

fun natOf :: "number \<Rightarrow> nat" where
  "natOf (Num x) = nat \<lfloor>x\<rfloor>"
| "natOf x = 0"

text \<open>
  The dB value rescaled to [0, 1] and clamped, as both algorithms do inline:
  \<open>normalized < 0 ? 0 : normalized > 1 ? 1 : normalized\<close>, which lets \<open>NaN\<close> through.
\<close>

definition normalizeDb :: "number \<Rightarrow> number \<Rightarrow> number \<Rightarrow> number" where
  "normalizeDb db gainOffset rng =
     (let normalized = (db - gainOffset) / rng
      in if normalized < 0 then 0 else if normalized > 1 then 1 else normalized)"

text \<open>Zero padding into the reusable padded buffer (filled again every frame).\<close>

definition zeroPadInput :: "nat \<Rightarrow> nat \<Rightarrow> nat \<Rightarrow> number list \<Rightarrow> number list" where
  "zeroPadInput zeroPad fftSz winSize windowedBuffer =
     (if zeroPad > 1 then windowedBuffer @ replicate (fftSz - winSize) 0
      else windowedBuffer)"

subsection \<open>Standard algorithm\<close>

text \<open>The two normalisation loops of a frame; a write past the end of a typed array is ignored.\<close>

definition writeFrame ::
  "number list \<Rightarrow> nat \<Rightarrow> nat \<Rightarrow> number list \<Rightarrow> number \<Rightarrow> number \<Rightarrow> number \<Rightarrow> number list" where
  "writeFrame spectrogram frameOffset nBins magnitudeBuffer normFactor gainOffset rng =
     (let cleared = fold (\<lambda>bin s. s[frameOffset + bin := 0]) [0..<3] spectrogram
      in fold (\<lambda>bin s. s[frameOffset + bin :=
                 normalizeDb (magnitudeToDbOf (magnitudeBuffer ! bin / normFactor)) gainOffset rng])
           [3..<nBins] cleared)"

text \<open>
  The body of the frame loop after the extraction of the frame: windowing, zero
  padding, transform, magnitudes, normalisation. The state is the matrix and the
  windowed buffer.
\<close>

definition processStandardFrame ::
  "number list \<Rightarrow> FFTContext \<Rightarrow> nat \<Rightarrow> nat \<Rightarrow> number list \<Rightarrow> number \<Rightarrow> number \<Rightarrow> number \<Rightarrow>
   nat \<Rightarrow> number list \<times> number list \<Rightarrow> number list \<times> number list" where
  "processStandardFrame frameData fftContext winSize zeroPad windowCoeffs normFactor gainOffset rng
     frame st =
     (let spectrogram = fst st; windowedBuffer = snd st;
          fftSz = ctx_size fftContext;
          nBins = fftSz div 2 + 1;
          windowedBuffer' = applyWindowCoefficients frameData windowCoeffs windowedBuffer;
          fftInput = zeroPadInput zeroPad fftSz winSize windowedBuffer';
          fftOutput = runFFT fftContext fftInput fftSz;
          magnitudeBuffer = computeMagnitudeInPlace fftOutput nBins;
          frameOffset = frame * nBins
      in (writeFrame spectrogram frameOffset nBins magnitudeBuffer normFactor gainOffset rng,
          windowedBuffer'))"

text \<open>One iteration of the frame loop: the frame is the view \<open>samples.subarray(offset, offset + windowSize)\<close>.\<close>

definition standardFrame ::
  "number list \<Rightarrow> FFTContext \<Rightarrow> nat \<Rightarrow> nat \<Rightarrow> nat \<Rightarrow> number list \<Rightarrow> number \<Rightarrow> number \<Rightarrow> number \<Rightarrow>
   nat \<Rightarrow> number list \<times> number list \<Rightarrow> number list \<times> number list" where
  "standardFrame samples_in fftContext hop winSize zeroPad windowCoeffs normFactor gainOffset rng
     frame st =
     (let offset = frame * hop;
          frameData = subarray samples_in offset (offset + winSize)
      in processStandardFrame frameData fftContext winSize zeroPad windowCoeffs normFactor
           gainOffset rng frame st)"

definition generateStandardSpectrogram ::
  "number list \<Rightarrow> number \<Rightarrow> FFTContext \<Rightarrow> nat \<Rightarrow> WindowType \<Rightarrow> nat \<Rightarrow> number \<Rightarrow> number \<Rightarrow>
   error + (number list \<times> nat)" where
  "generateStandardSpectrogram samples_in rate fftContext hop wType zeroPad gain_db rng =
     (let fftSz = ctx_size fftContext;
          windowSz = windowSizeOf fftSz zeroPad;
          nBins = fftSz div 2 + 1;
          nFramesNum = frameCount (length samples_in) windowSz hop
      in if nFramesNum \<le> 0 then Inl AudioTooShort
         else
           (case nFramesNum of
              Num n \<Rightarrow>
                (let nFrames = nat \<lfloor>n\<rfloor>;
                     winSize = natOf windowSz;
                     spectrogram = replicate (nFrames * nBins) (0::number);
                     windowedBuffer = replicate winSize (0::number);
                     windowCoeffs = getWindowCoefficients wType winSize StandardVariant;
                     coherentGain = WINDOW_COHERENT_GAIN wType;
                     normFactor = (num fftSz * coherentGain) / 2;
                     gainOffset = gain_db - rng;
                     final = fold (standardFrame samples_in fftContext hop winSize zeroPad
                                    windowCoeffs normFactor gainOffset rng)
                               [0..<nFrames] (spectrogram, windowedBuffer)
                 in Inr (fst final, nFrames))
            | NaN \<Rightarrow> Inl FrameCountNaN
            | _ \<Rightarrow> Inl InvalidArrayLength))"

subsection \<open>Reassignment algorithm\<close>

text \<open>
  The corrections of one bin of one frame: \<open>None\<close> where the loop body skips the bin
  (\<open>continue\<close>), otherwise the frequency correction (in bins), the time correction
  (in frames) and the magnitude of \<open>X_h\<close>. A squared magnitude that is \<open>NaN\<close> is not
  below the threshold: the bin is not skipped, and its corrections are \<open>NaN\<close>.
\<close>

definition binCorrections ::
  "nat \<Rightarrow> nat \<Rightarrow> nat \<Rightarrow> number list \<Rightarrow> number list \<Rightarrow> number list \<Rightarrow>
   (number \<times> number \<times> number) option" where
  "binCorrections fftSz hop bin X_h X_Dh X_Th =
     (let re_h = X_h ! (bin * 2);
          im_h = X_h ! (bin * 2 + 1);
          mag_h_sq = re_h * re_h + im_h * im_h
      in if mag_h_sq < Num (1 / 10 ^ 20) then None
         else
           (let mag_h = Math_sqrt mag_h_sq;
                re_Dh = X_Dh ! (bin * 2);
                im_Dh = X_Dh ! (bin * 2 + 1);
                re_Th = X_Th ! (bin * 2);
                im_Th = X_Th ! (bin * 2 + 1);
                ratio_Dh_im = (im_Dh * re_h - re_Dh * im_h) / mag_h_sq;
                ratio_Th_re = (re_Th * re_h + im_Th * im_h) / mag_h_sq;
                freqCorrectionFactor = num fftSz / (2 * Math_PI);
                freqCorrection = - ratio_Dh_im * freqCorrectionFactor;
                timeCorrection = ratio_Th_re / num hop
            in Some (freqCorrection, timeCorrection, mag_h)))"

text \<open>
  The reassigned coordinates (lines 346 to 348): the reassigned bin, the reassigned frame
  and the magnitude.
\<close>

definition reassignedCoordinates ::
  "nat \<Rightarrow> nat \<Rightarrow> nat \<Rightarrow> nat \<Rightarrow> number list \<Rightarrow> number list \<Rightarrow> number list \<Rightarrow>
   (int \<times> int \<times> number) option" where
  "reassignedCoordinates fftSz hop frame bin X_h X_Dh X_Th =
     (case binCorrections fftSz hop bin X_h X_Dh X_Th of
        None \<Rightarrow> None
      | Some (freqCorrection, timeCorrection, mag_h) \<Rightarrow>
          (let reassignedBin = bitOrZero (num bin + freqCorrection + 0.5);
               reassignedFrame = bitOrZero (num frame + timeCorrection + 0.5)
           in Some (reassignedBin, reassignedFrame, mag_h)))"

text \<open>
  The contribution of one bin: the index of the cell it is reassigned to and its
  normalised value, when the reassigned coordinates pass the bounds check. The value is
  0, 1 or a number between them, or \<open>NaN\<close>; a \<open>NaN\<close> is never stored, since
  \<open>value > energyAccum[idx]\<close> is false for it, so it is no contribution.
\<close>

definition binContribution ::
  "nat \<Rightarrow> nat \<Rightarrow> nat \<Rightarrow> nat \<Rightarrow> number \<Rightarrow> number \<Rightarrow> number \<Rightarrow> nat \<Rightarrow>
   number list \<times> number list \<times> number list \<Rightarrow> nat \<Rightarrow> (nat \<times> real) option" where
  "binContribution fftSz hop nBins nFrames normFactor gainOffset rng frame X bin =
     (case reassignedCoordinates fftSz hop frame bin (fst X) (fst (snd X)) (snd (snd X)) of
        None \<Rightarrow> None
      | Some (reassignedBin, reassignedFrame, mag_h) \<Rightarrow>
          if reassignedBin \<ge> 3 \<and> reassignedBin < int nBins \<and>
             reassignedFrame \<ge> 0 \<and> reassignedFrame < int nFrames
          then (let idx = nat (reassignedFrame * int nBins + reassignedBin);
                    normalizedMag = mag_h / normFactor;
                    db = magnitudeToDbOf normalizedMag
                in case normalizeDb db gainOffset rng of
                     Num v \<Rightarrow> Some (idx, v)
                   | _ \<Rightarrow> None)
          else None)"

text \<open>\<open>if (value > energyAccum[idx]) energyAccum[idx] = value\<close>\<close>

definition accumulate :: "(nat \<times> real) \<Rightarrow> real list \<Rightarrow> real list" where
  "accumulate c energyAccum =
     (if snd c > energyAccum ! fst c then energyAccum[fst c := snd c] else energyAccum)"

definition reassignBin ::
  "nat \<Rightarrow> nat \<Rightarrow> nat \<Rightarrow> nat \<Rightarrow> number \<Rightarrow> number \<Rightarrow> number \<Rightarrow> nat \<Rightarrow>
   number list \<times> number list \<times> number list \<Rightarrow> nat \<Rightarrow> real list \<Rightarrow> real list" where
  "reassignBin fftSz hop nBins nFrames normFactor gainOffset rng frame X bin energyAccum =
     (case binContribution fftSz hop nBins nFrames normFactor gainOffset rng frame X bin of
        None \<Rightarrow> energyAccum
      | Some c \<Rightarrow> accumulate c energyAccum)"

text \<open>
  The three windowed transforms of an extracted frame. The state is the three reusable
  windowed buffers; the result is \<open>(X_h, X_Dh, X_Th)\<close> and the buffers after the frame.
\<close>

definition windowedTransforms ::
  "number list \<Rightarrow> FFTContext \<Rightarrow> nat \<Rightarrow> nat \<Rightarrow> number list \<times> number list \<times> number list \<Rightarrow>
   number list \<times> number list \<times> number list \<Rightarrow>
   (number list \<times> number list \<times> number list) \<times> (number list \<times> number list \<times> number list)" where
  "windowedTransforms frameData fftContext winSize zeroPad coeffs bufs =
     (let fftSz = ctx_size fftContext;
          windowedH = applyWindowCoefficients frameData (fst coeffs) (fst bufs);
          windowedDh = applyWindowCoefficients frameData (fst (snd coeffs)) (fst (snd bufs));
          windowedTh = applyWindowCoefficients frameData (snd (snd coeffs)) (snd (snd bufs));
          X_h = runFFT fftContext (zeroPadInput zeroPad fftSz winSize windowedH) fftSz;
          X_Dh = runFFT fftContext (zeroPadInput zeroPad fftSz winSize windowedDh) fftSz;
          X_Th = runFFT fftContext (zeroPadInput zeroPad fftSz winSize windowedTh) fftSz
      in ((X_h, X_Dh, X_Th), (windowedH, windowedDh, windowedTh)))"

text \<open>
  The extraction of frame \<open>frame\<close> and its three transforms, as one function of the
  input (what an iteration of the frame loop computes before its loop over the bins).
\<close>

definition frameTransforms ::
  "number list \<Rightarrow> FFTContext \<Rightarrow> nat \<Rightarrow> nat \<Rightarrow> nat \<Rightarrow> number list \<times> number list \<times> number list \<Rightarrow>
   nat \<Rightarrow> number list \<times> number list \<times> number list \<Rightarrow>
   (number list \<times> number list \<times> number list) \<times> (number list \<times> number list \<times> number list)" where
  "frameTransforms samples_in fftContext hop winSize zeroPad coeffs frame bufs =
     (let offset = frame * hop;
          frameData = subarray samples_in offset (offset + winSize)
      in windowedTransforms frameData fftContext winSize zeroPad coeffs bufs)"

text \<open>
  The body of the frame loop after the extraction of the frame: the three transforms,
  then the loop over the bins. The state is the accumulator and the buffers.
\<close>

definition processReassignedFrame ::
  "number list \<Rightarrow> FFTContext \<Rightarrow> nat \<Rightarrow> nat \<Rightarrow> nat \<Rightarrow> number list \<times> number list \<times> number list \<Rightarrow>
   nat \<Rightarrow> number \<Rightarrow> number \<Rightarrow> number \<Rightarrow> nat \<Rightarrow>
   real list \<times> (number list \<times> number list \<times> number list) \<Rightarrow>
   real list \<times> (number list \<times> number list \<times> number list)" where
  "processReassignedFrame frameData fftContext hop winSize zeroPad coeffs nFrames normFactor
     gainOffset rng frame st =
     (let fftSz = ctx_size fftContext;
          nBins = fftSz div 2 + 1;
          tr = windowedTransforms frameData fftContext winSize zeroPad coeffs (snd st)
      in (fold (reassignBin fftSz hop nBins nFrames normFactor gainOffset rng frame (fst tr))
            [3..<nBins] (fst st),
          snd tr))"

text \<open>One iteration of the frame loop: the frame is the view \<open>samples.subarray(offset, offset + windowSize)\<close>.\<close>

definition reassignedFrame ::
  "number list \<Rightarrow> FFTContext \<Rightarrow> nat \<Rightarrow> nat \<Rightarrow> nat \<Rightarrow> number list \<times> number list \<times> number list \<Rightarrow>
   nat \<Rightarrow> number \<Rightarrow> number \<Rightarrow> number \<Rightarrow> nat \<Rightarrow>
   real list \<times> (number list \<times> number list \<times> number list) \<Rightarrow>
   real list \<times> (number list \<times> number list \<times> number list)" where
  "reassignedFrame samples_in fftContext hop winSize zeroPad coeffs nFrames normFactor gainOffset
     rng frame st =
     (let offset = frame * hop;
          frameData = subarray samples_in offset (offset + winSize)
      in processReassignedFrame frameData fftContext hop winSize zeroPad coeffs nFrames normFactor
           gainOffset rng frame st)"

text \<open>
  The matrix of the reassignment algorithm is the accumulator, which starts at 0 and
  takes finite values only: it is a list of real numbers.
\<close>

definition generateReassignedSpectrogram ::
  "number list \<Rightarrow> number \<Rightarrow> FFTContext \<Rightarrow> nat \<Rightarrow> WindowType \<Rightarrow> nat \<Rightarrow> number \<Rightarrow> number \<Rightarrow>
   error + (real list \<times> nat)" where
  "generateReassignedSpectrogram samples_in rate fftContext hop wType zeroPad gain_db rng =
     (let fftSz = ctx_size fftContext;
          windowSz = windowSizeOf fftSz zeroPad;
          nBins = fftSz div 2 + 1;
          nFramesNum = frameCount (length samples_in) windowSz hop
      in if nFramesNum \<le> 0 then Inl AudioTooShort
         else
           (case nFramesNum of
              Num n \<Rightarrow>
                (let nFrames = nat \<lfloor>n\<rfloor>;
                     winSize = natOf windowSz;
                     energyAccum = replicate (nFrames * nBins) (0::real);
                     bufs = (replicate winSize (0::number), replicate winSize (0::number),
                             replicate winSize (0::number));
                     coeffs = (getWindowCoefficients wType winSize StandardVariant,
                               getWindowCoefficients wType winSize Derivative,
                               getWindowCoefficients wType winSize TimeRamped);
                     coherentGain = WINDOW_COHERENT_GAIN wType;
                     normFactor = (num fftSz * coherentGain) / 2;
                     gainOffset = gain_db - rng;
                     final = fold (reassignedFrame samples_in fftContext hop winSize zeroPad coeffs
                                    nFrames normFactor gainOffset rng)
                               [0..<nFrames] (energyAccum, bufs)
                 in Inr (fst final, nFrames))
            | NaN \<Rightarrow> Inl FrameCountNaN
            | _ \<Rightarrow> Inl InvalidArrayLength))"

subsection \<open>The entry point\<close>

text \<open>
  The hop size, optionally raised for a target width (lines 426 to 434). Where
  \<open>framesWithUserHop > targetWidth\<close> holds, the window size is finite and \<open>minHopSize\<close>
  a whole number (lemmas \<open>hopSizePolicy_num\<close> and \<open>hopSizePolicy_not_finite\<close>), so the
  raised hop size is a natural number again.
\<close>

definition hopSizePolicy :: "nat \<Rightarrow> number \<Rightarrow> nat \<Rightarrow> nat option \<Rightarrow> nat" where
  "hopSizePolicy numSamples winSize userHop targetW =
     (case targetW of
        None \<Rightarrow> userHop
      | Some tw \<Rightarrow>
          if tw > 0 then
            (let framesWithUserHop = frameCount numSamples winSize userHop
             in if framesWithUserHop > num tw
                then (let minHopSize =
                            Math_floor ((num numSamples - winSize) / num (max 1 (tw - 1)))
                      in natOf (Math_max (num userHop) minHopSize))
                else userHop)
          else userHop)"

definition userHopSize :: "SpectrogramOptions \<Rightarrow> nat" where
  "userHopSize opts =
     (case opt_hopSize opts of Some h \<Rightarrow> h | None \<Rightarrow> ctx_size (opt_fftContext opts) div 4)"

definition zeroPaddingOf :: "SpectrogramOptions \<Rightarrow> nat" where
  "zeroPaddingOf opts = (case opt_zeroPadding opts of Some z \<Rightarrow> z | None \<Rightarrow> 1)"

definition generateSpectrogram :: "SpectrogramOptions \<Rightarrow> error + number SpectrogramData" where
  "generateSpectrogram opts =
     (let samples_in = opt_samples opts;
          rate = opt_sampleRate opts;
          fftContext = opt_fftContext opts;
          zeroPad = zeroPaddingOf opts;
          gain_db = (case opt_gain opts of Some g \<Rightarrow> g | None \<Rightarrow> 0);
          rng = (case opt_range opts of Some r \<Rightarrow> r | None \<Rightarrow> 80);
          algo = (case opt_algorithm opts of Some a \<Rightarrow> a | None \<Rightarrow> Standard);
          wType = (case opt_windowType opts of Some w \<Rightarrow> w | None \<Rightarrow> Hann);
          fftSz = ctx_size fftContext;
          windowSz = windowSizeOf fftSz zeroPad;
          nBins = fftSz div 2 + 1;
          hop = hopSizePolicy (length samples_in) windowSz (userHopSize opts)
                  (opt_targetWidth opts);
          result =
            (if algo = Reassignment
             then map_sum id (\<lambda>r. (map Num (fst r), snd r))
                    (generateReassignedSpectrogram samples_in rate fftContext hop wType zeroPad
                       gain_db rng)
             else generateStandardSpectrogram samples_in rate fftContext hop wType zeroPad
                    gain_db rng)
      in case result of
           Inl e \<Rightarrow> Inl e
         | Inr r \<Rightarrow>
             Inr \<lparr> data = fst r, numFrames = snd r, numBins = nBins, fftSize = fftSz,
                   windowSize = natOf windowSz, hopSize = hop, sampleRate = rate,
                   duration = num (length samples_in) / rate \<rparr>)"

section \<open>Frequency scales and the frequency mapping (renderer.ts)\<close>

text \<open>
  The functions of the renderer are modelled on finite numbers, in exact real arithmetic.
  The model follows the source where no quotient has a zero denominator and no logarithm
  an argument that is not positive: at least 2 display bins, a positive sample rate and
  positive frequencies.
\<close>

datatype FrequencyScale = Linear | Log | Mel | Bark | Erb

definition hzToMel :: "real \<Rightarrow> real" where
  "hzToMel hz = 2595 * log 10 (1 + hz / 700)"

definition melToHz :: "real \<Rightarrow> real" where
  "melToHz mel = 700 * (10 powr (mel / 2595) - 1)"

definition hzToBark :: "real \<Rightarrow> real" where
  "hzToBark hz = 13 * arctan (0.00076 * hz) + 3.5 * arctan ((hz / 7500) ^ 2)"

text \<open>The Newton-Raphson loop of \<open>barkToHz\<close>: at most \<open>n\<close> more iterations.\<close>

fun barkNewton :: "nat \<Rightarrow> real \<Rightarrow> real \<Rightarrow> real" where
  "barkNewton 0 bark hz = hz"
| "barkNewton (Suc n) bark hz =
     (let currentBark = hzToBark hz;
          err = bark - currentBark
      in if \<bar>err\<bar> < 0.001 then hz
         else
           (let derivative =
                  (13 * 0.00076) / (1 + (0.00076 * hz) ^ 2)
                    + (3.5 * 2 * (hz / 7500)) / (7500 * (1 + (hz / 7500) ^ 4))
            in barkNewton n bark (hz + err / derivative)))"

definition barkToHz :: "real \<Rightarrow> real" where
  "barkToHz bark = max 1 (barkNewton 10 bark (bark * 100))"

definition hzToErb :: "real \<Rightarrow> real" where
  "hzToErb hz = 21.4 * log 10 (1 + 0.00437 * hz)"

definition erbToHz :: "real \<Rightarrow> real" where
  "erbToHz erb = (10 powr (erb / 21.4) - 1) / 0.00437"

definition effectiveMinFreq :: "real option \<Rightarrow> real" where
  "effectiveMinFreq minFreq = max (case minFreq of Some f \<Rightarrow> f | None \<Rightarrow> 20) 1"

definition effectiveMaxFreq :: "real \<Rightarrow> real option \<Rightarrow> real" where
  "effectiveMaxFreq rate maxFreq =
     (let nyquist = rate / 2 in min (case maxFreq of Some f \<Rightarrow> f | None \<Rightarrow> nyquist) nyquist)"

definition createFrequencyMapping ::
  "nat \<Rightarrow> real \<Rightarrow> FrequencyScale \<Rightarrow> nat \<Rightarrow> real option \<Rightarrow> real option \<Rightarrow> real list" where
  "createFrequencyMapping nBins rate scale displayBins minFreq maxFreq =
     (let nyquist = rate / 2;
          lo = effectiveMinFreq minFreq;
          hi = effectiveMaxFreq rate maxFreq;
          pos = (\<lambda>i. real i / (real displayBins - 1));
          toBin = (\<lambda>hz. (hz / nyquist) * (real nBins - 1))
      in case scale of
           Linear \<Rightarrow> map (\<lambda>i. toBin (lo + pos i * (hi - lo))) [0..<displayBins]
         | Log \<Rightarrow>
             (let logMin = log 10 lo; logMax = log 10 hi
              in map (\<lambda>i. toBin (10 powr (logMin + pos i * (logMax - logMin)))) [0..<displayBins])
         | Mel \<Rightarrow>
             (let minMel = hzToMel lo; maxMel = hzToMel hi
              in map (\<lambda>i. toBin (melToHz (minMel + pos i * (maxMel - minMel)))) [0..<displayBins])
         | Bark \<Rightarrow>
             (let minBark = hzToBark lo; maxBark = hzToBark hi
              in map (\<lambda>i. toBin (barkToHz (minBark + pos i * (maxBark - minBark))))
                   [0..<displayBins])
         | Erb \<Rightarrow>
             (let minErb = hzToErb lo; maxErb = hzToErb hi
              in map (\<lambda>i. toBin (erbToHz (minErb + pos i * (maxErb - minErb)))) [0..<displayBins]))"

section \<open>Color scales (color-scales.ts)\<close>

datatype ColorScale = Viridis | Magma | Grayscale | Hot | Inferno

text \<open>
  The bytes of a color are the floors of polynomials of \<open>t\<close>, computed here in exact
  arithmetic; where the double-precision value of the source rounds across a whole
  number, its byte is one off from the one given here.
\<close>

definition byteClamp :: "int \<Rightarrow> int" where
  "byteClamp v = max 0 (min 255 v)"

fun COLOR_SCALES :: "ColorScale \<Rightarrow> real \<Rightarrow> int \<times> int \<times> int" where
  "COLOR_SCALES Viridis t =
     (byteClamp \<lfloor>255 * (0.267 + 0.329 * t + 2.66 * t * t - 2.35 * t * t * t)\<rfloor>,
      byteClamp \<lfloor>255 * (0.004 + 1.42 * t - 1.54 * t * t + 0.69 * t * t * t)\<rfloor>,
      byteClamp \<lfloor>255 * (0.329 + 1.42 * t - 2.49 * t * t + 1.33 * t * t * t)\<rfloor>)"
| "COLOR_SCALES Magma t =
     (if t < 0.25 then
        (let s = t / 0.25 in (\<lfloor>3 * s\<rfloor>, \<lfloor>3 * s\<rfloor>, \<lfloor>80 * s\<rfloor>))
      else if t < 0.5 then
        (let s = (t - 0.25) / 0.25 in (\<lfloor>3 + 177 * s\<rfloor>, \<lfloor>3 - 3 * s\<rfloor>, \<lfloor>80 + 100 * s\<rfloor>))
      else if t < 0.75 then
        (let s = (t - 0.5) / 0.25 in (\<lfloor>180 + 75 * s\<rfloor>, \<lfloor>0 + 140 * s\<rfloor>, \<lfloor>180 - 180 * s\<rfloor>))
      else
        (let s = (t - 0.75) / 0.25 in (255, \<lfloor>140 + 115 * s\<rfloor>, \<lfloor>0 + 255 * s\<rfloor>)))"
| "COLOR_SCALES Grayscale t = (let v = \<lfloor>255 * t\<rfloor> in (v, v, v))"
| "COLOR_SCALES Hot t =
     (if t < 0.33 then (\<lfloor>255 * (t / 0.33)\<rfloor>, 0, 0)
      else if t < 0.67 then (255, \<lfloor>255 * ((t - 0.33) / 0.34)\<rfloor>, 0)
      else (255, 255, \<lfloor>255 * ((t - 0.67) / 0.33)\<rfloor>))"
| "COLOR_SCALES Inferno t =
     (if t < 0.15 then
        (let s = t / 0.15 in (\<lfloor>10 + 50 * s\<rfloor>, 0, \<lfloor>20 + 60 * s\<rfloor>))
      else if t < 0.4 then
        (let s = (t - 0.15) / 0.25 in (\<lfloor>60 + 120 * s\<rfloor>, \<lfloor>20 * s\<rfloor>, \<lfloor>80 + 40 * s\<rfloor>))
      else if t < 0.65 then
        (let s = (t - 0.4) / 0.25 in (\<lfloor>180 + 60 * s\<rfloor>, \<lfloor>20 + 60 * s\<rfloor>, \<lfloor>120 - 100 * s\<rfloor>))
      else if t < 0.85 then
        (let s = (t - 0.65) / 0.2 in (255, \<lfloor>80 + 120 * s\<rfloor>, \<lfloor>20 - 20 * s\<rfloor>))
      else
        (let s = (t - 0.85) / 0.15 in (255, \<lfloor>200 + 55 * s\<rfloor>, \<lfloor>100 * s\<rfloor>)))"

section \<open>Rendering (renderer.ts)\<close>

datatype DownsampleMode = DownMax | DownAverage | DownNearest

datatype InterpolationMode = InterpNearest | InterpLinear | InterpCubic

definition COLOR_LUT_SIZE :: nat where
  "COLOR_LUT_SIZE = 256"

text \<open>A store into a \<open>Uint8Array\<close> keeps the value modulo 256.\<close>

definition toUint8 :: "int \<Rightarrow> nat" where
  "toUint8 v = nat (v mod 256)"

text \<open>The lookup table of a color scale; the cache does not change its value.\<close>

definition getColorLUT :: "ColorScale \<Rightarrow> nat list" where
  "getColorLUT colorScale =
     concat (map (\<lambda>i. let v = real i / (real COLOR_LUT_SIZE - 1);
                          rgb = COLOR_SCALES colorScale v
                      in [toUint8 (fst rgb), toUint8 (fst (snd rgb)), toUint8 (snd (snd rgb))])
               [0..<COLOR_LUT_SIZE])"

definition cubicInterpolate :: "real \<Rightarrow> real \<Rightarrow> real \<Rightarrow> real \<Rightarrow> real \<Rightarrow> real" where
  "cubicInterpolate p0 p1 p2 p3 t =
     (let t2 = t * t; t3 = t2 * t
      in 0.5 * (2 * p1 + (- p0 + p2) * t + (2 * p0 - 5 * p1 + 4 * p2 - p3) * t2
                + (- p0 + 3 * p1 - 3 * p2 + p3) * t3))"

text \<open>\<open>Math.max(0, Math.min(len - 1, idx))\<close>, as an index.\<close>

definition clampIndex :: "nat \<Rightarrow> int \<Rightarrow> nat" where
  "clampIndex len idx = nat (max 0 (min (int len - 1) idx))"

text \<open>\<open>Math.round\<close> rounds half up.\<close>

definition jsRound :: "real \<Rightarrow> int" where
  "jsRound x = \<lfloor>x + 1 / 2\<rfloor>"

definition sampleSpectrum :: "real list \<Rightarrow> real \<Rightarrow> InterpolationMode \<Rightarrow> real" where
  "sampleSpectrum spectrum pos interpolation =
     (let len = length spectrum
      in case interpolation of
           InterpNearest \<Rightarrow> spectrum ! clampIndex len (jsRound pos)
         | InterpLinear \<Rightarrow>
             (let idx = \<lfloor>pos\<rfloor>; frac = pos - real_of_int idx;
                  i0 = clampIndex len idx; i1 = clampIndex len (idx + 1)
              in spectrum ! i0 * (1 - frac) + spectrum ! i1 * frac)
         | InterpCubic \<Rightarrow>
             (let idx = \<lfloor>pos\<rfloor>; frac = pos - real_of_int idx;
                  i0 = clampIndex len (idx - 1); i1 = clampIndex len idx;
                  i2 = clampIndex len (idx + 1); i3 = clampIndex len (idx + 2);
                  result = cubicInterpolate (spectrum ! i0) (spectrum ! i1) (spectrum ! i2)
                             (spectrum ! i3) frac
              in max 0 result))"

definition calculateFrequencyGain :: "real \<Rightarrow> real \<Rightarrow> real" where
  "calculateFrequencyGain hz frequencyGain =
     (if frequencyGain = 0 \<or> hz \<le> 1000 then 0
      else (let decades = log 10 (hz / 1000) in frequencyGain * decades))"

definition getFrequencyAtBin :: "nat \<Rightarrow> nat \<Rightarrow> real \<Rightarrow> real \<Rightarrow> FrequencyScale \<Rightarrow> real" where
  "getFrequencyAtBin bin displayBins minFreq maxFreq freqScale =
     (let t = real bin / (real displayBins - 1)
      in if freqScale = Linear then minFreq + t * (maxFreq - minFreq)
         else if freqScale = Log then
           (let logMin = log 10 minFreq; logMax = log 10 maxFreq
            in 10 powr (logMin + t * (logMax - logMin)))
         else minFreq + t * (maxFreq - minFreq))"

text \<open>
  The range of source bins that a display bin covers, after the clamp to the spectrum
  (lines 157 to 173): \<open>(srcBinStart, srcBinEnd)\<close>.
\<close>

definition sourceRange :: "real list \<Rightarrow> nat \<Rightarrow> nat \<Rightarrow> nat \<Rightarrow> real \<times> real" where
  "sourceRange freqMapping displayBins specLen i =
     (let srcBin = freqMapping ! i;
          r = (if i = 0 then
                 (srcBin,
                  if i + 1 < displayBins then (srcBin + freqMapping ! (i + 1)) * 0.5
                  else srcBin + 0.5)
               else if i = displayBins - 1 then
                 ((freqMapping ! (i - 1) + srcBin) * 0.5, srcBin)
               else
                 ((freqMapping ! (i - 1) + srcBin) * 0.5,
                  (srcBin + freqMapping ! (i + 1)) * 0.5));
          srcBinStart = (if fst r < 0 then 0 else fst r);
          srcBinEnd = (if snd r > real specLen - 1 then real specLen - 1 else snd r)
      in (srcBinStart, srcBinEnd))"

text \<open>
  One iteration of the loop over display bins. The inner loops run over
  \<open>j = binLow, \<dots>\<close> while \<open>j \<le> binHigh\<close> and \<open>j < specLen\<close>. A read at a
  negative index yields \<open>undefined\<close>, which no comparison exceeds, so the maximum
  skips it; \<open>binLow\<close> is negative only for a start position of \<open>2^31\<close> or more
  (the average is not a number then, which the model does not represent).
\<close>

definition remapBin ::
  "real list \<Rightarrow> real list \<Rightarrow> nat \<Rightarrow> DownsampleMode \<Rightarrow> InterpolationMode \<Rightarrow> nat \<Rightarrow> real" where
  "remapBin spectrum freqMapping displayBins downsampleMode interpolation i =
     (let specLen = length spectrum;
          srcBin = freqMapping ! i;
          r = sourceRange freqMapping displayBins specLen i;
          binLow = toInt32 (fst r);
          binHigh = toInt32 (snd r + 1);
          js = [binLow..min binHigh (int specLen - 1)]
      in if binHigh \<le> binLow \<or> downsampleMode = DownNearest then
           sampleSpectrum spectrum srcBin interpolation
         else if downsampleMode = DownMax then
           fold (\<lambda>j maxVal. if 0 \<le> j \<and> spectrum ! nat j > maxVal then spectrum ! nat j
                            else maxVal)
             js (sampleSpectrum spectrum srcBin interpolation)
         else
           (let acc = fold (\<lambda>j sc. (fst sc + spectrum ! nat j, snd sc + 1)) js
                        (sampleSpectrum spectrum srcBin interpolation, 1::nat)
            in fst acc / real (snd acc)))"

text \<open>
  The remapped spectrum is written into the output buffer when one is given (a write
  past its end is ignored), into a fresh array otherwise.
\<close>

definition remapSpectrumWithDownsample ::
  "real list \<Rightarrow> real list \<Rightarrow> nat \<Rightarrow> DownsampleMode \<Rightarrow> InterpolationMode \<Rightarrow> real list option \<Rightarrow>
   real list" where
  "remapSpectrumWithDownsample spectrum freqMapping displayBins downsampleMode interpolation
     output =
     (let vals = map (remapBin spectrum freqMapping displayBins downsampleMode interpolation)
                   [0..<displayBins]
      in case output of
           None \<Rightarrow> vals
         | Some buf \<Rightarrow> take (length buf) vals @ drop displayBins buf)"

record RenderOptions =
  ropt_spectrogram :: "real SpectrogramData"
  ropt_colorScale :: "ColorScale option"
  ropt_freqScale :: "FrequencyScale option"
  ropt_minFreq :: "real option"
  ropt_maxFreq :: "real option"
  ropt_frequencyGain :: "real option"
  ropt_range :: "real option"
  ropt_downsampleMode :: "DownsampleMode option"
  ropt_interpolation :: "InterpolationMode option"
  ropt_outputWidth :: "nat option"
  ropt_outputHeight :: "nat option"

record ImageData =
  width :: nat
  height :: nat
  img_data :: "nat list"

text \<open>The color loop of one frame: four bytes per display bin.\<close>

definition writePixel ::
  "nat list \<Rightarrow> nat \<Rightarrow> nat \<Rightarrow> real list \<Rightarrow> real list \<Rightarrow> nat \<Rightarrow> nat \<Rightarrow> nat list \<Rightarrow> nat list" where
  "writePixel colorLUT nFrames displayBins displayBuffer freqGainFactors frame bin pixels =
     (let v0 = displayBuffer ! bin + freqGainFactors ! bin;
          v = (if v0 < 0 then 0 else if v0 > 1 then 1 else v0);
          lutMax = real COLOR_LUT_SIZE - 1;
          lutIdx = nat (toInt32 (v * lutMax + 0.5)) * 3;
          r = colorLUT ! lutIdx;
          g = colorLUT ! (lutIdx + 1);
          b = colorLUT ! (lutIdx + 2);
          y = displayBins - 1 - bin;
          pixelIndex = (y * nFrames + frame) * 4
      in pixels[pixelIndex := r, pixelIndex + 1 := g, pixelIndex + 2 := b,
                pixelIndex + 3 := 255])"

definition renderFrame ::
  "real list \<Rightarrow> nat \<Rightarrow> nat \<Rightarrow> real list \<Rightarrow> DownsampleMode \<Rightarrow> InterpolationMode \<Rightarrow> nat list \<Rightarrow>
   real list \<Rightarrow> nat \<Rightarrow> nat list \<times> real list \<Rightarrow> nat list \<times> real list" where
  "renderFrame matrix nFrames nBins freqMapping downsampleMode interpolation colorLUT
     freqGainFactors frame st =
     (let displayBins = nBins;
          frameOffset = frame * nBins;
          frameSpectrum = subarray matrix frameOffset (frameOffset + nBins);
          displayBuffer = remapSpectrumWithDownsample frameSpectrum freqMapping displayBins
                            downsampleMode interpolation (Some (snd st))
      in (fold (writePixel colorLUT nFrames displayBins displayBuffer freqGainFactors frame)
            [0..<displayBins] (fst st),
          displayBuffer))"

text \<open>
  \<open>renderToImageData\<close>. The options \<open>outputWidth\<close>, \<open>outputHeight\<close> and \<open>range\<close>
  are not read by the function.
\<close>

definition renderToImageData :: "RenderOptions \<Rightarrow> ImageData" where
  "renderToImageData options =
     (let spectrogram = ropt_spectrogram options;
          freqScale = (case ropt_freqScale options of Some s \<Rightarrow> s | None \<Rightarrow> Log);
          minFreq = (case ropt_minFreq options of Some f \<Rightarrow> f | None \<Rightarrow> 50);
          maxFreq = (case ropt_maxFreq options of Some f \<Rightarrow> f | None \<Rightarrow> 8000);
          frequencyGain = (case ropt_frequencyGain options of Some g \<Rightarrow> g | None \<Rightarrow> 0);
          downsampleMode =
            (case ropt_downsampleMode options of Some m \<Rightarrow> m | None \<Rightarrow> DownMax);
          interpolation =
            (case ropt_interpolation options of Some m \<Rightarrow> m | None \<Rightarrow> InterpLinear);
          colorScale = (case ropt_colorScale options of Some c \<Rightarrow> c | None \<Rightarrow> Magma);
          nFrames = numFrames spectrogram;
          nBins = numBins spectrogram;
          nyquist = sampleRate spectrogram / 2;
          displayBins = nBins;
          effMin = max minFreq 1;
          effMax = min maxFreq nyquist;
          freqMapping = createFrequencyMapping nBins (sampleRate spectrogram) freqScale
                          displayBins (Some effMin) (Some effMax);
          freqGainFactors =
            map (\<lambda>bin. calculateFrequencyGain
                          (getFrequencyAtBin bin displayBins effMin effMax freqScale)
                          frequencyGain / 40)
              [0..<displayBins];
          pixels = replicate (nFrames * displayBins * 4) (0::nat);
          colorLUT = getColorLUT colorScale;
          displayBuffer = replicate displayBins (0::real);
          final = fold (renderFrame (data spectrogram) nFrames nBins freqMapping downsampleMode
                          interpolation colorLUT freqGainFactors)
                    [0..<nFrames] (pixels, displayBuffer)
      in \<lparr> width = nFrames, height = displayBins, img_data = fst final \<rparr>)"

section \<open>The contributions of a reassignment run\<close>

text \<open>
  The contributions \<open>(idx, value)\<close> that a run of the reassignment algorithm accumulates,
  in the order in which its loops produce them: per frame those of the bins
  \<open>3, \<dots>, numBins - 1\<close> that are neither skipped nor out of bounds. These lists are
  not in the source; they name what the loops do, to state what a cell holds.
\<close>

definition frameContributions ::
  "nat \<Rightarrow> nat \<Rightarrow> nat \<Rightarrow> nat \<Rightarrow> number \<Rightarrow> number \<Rightarrow> number \<Rightarrow> nat \<Rightarrow>
   number list \<times> number list \<times> number list \<Rightarrow> (nat \<times> real) list" where
  "frameContributions fftSz hop nBins nFrames normFactor gainOffset rng frame X =
     List.map_filter (binContribution fftSz hop nBins nFrames normFactor gainOffset rng frame X)
       [3..<nBins]"

primrec loopContributions ::
  "number list \<Rightarrow> FFTContext \<Rightarrow> nat \<Rightarrow> nat \<Rightarrow> nat \<Rightarrow> number list \<times> number list \<times> number list \<Rightarrow>
   nat \<Rightarrow> number \<Rightarrow> number \<Rightarrow> number \<Rightarrow> nat list \<Rightarrow> number list \<times> number list \<times> number list \<Rightarrow>
   (nat \<times> real) list" where
  "loopContributions samples_in fftContext hop winSize zeroPad coeffs nFrames normFactor
     gainOffset rng [] bufs = []"
| "loopContributions samples_in fftContext hop winSize zeroPad coeffs nFrames normFactor
     gainOffset rng (frame # frames) bufs =
     (let tr = frameTransforms samples_in fftContext hop winSize zeroPad coeffs frame bufs
      in frameContributions (ctx_size fftContext) hop (ctx_size fftContext div 2 + 1) nFrames
           normFactor gainOffset rng frame (fst tr)
         @ loopContributions samples_in fftContext hop winSize zeroPad coeffs nFrames normFactor
             gainOffset rng frames (snd tr))"

definition reassignmentContributions ::
  "number list \<Rightarrow> FFTContext \<Rightarrow> nat \<Rightarrow> WindowType \<Rightarrow> nat \<Rightarrow> number \<Rightarrow> number \<Rightarrow>
   (nat \<times> real) list" where
  "reassignmentContributions samples_in fftContext hop wType zeroPad gain_db rng =
     (let fftSz = ctx_size fftContext;
          windowSz = windowSizeOf fftSz zeroPad;
          winSize = natOf windowSz;
          nFrames = natOf (frameCount (length samples_in) windowSz hop);
          bufs = (replicate winSize (0::number), replicate winSize (0::number),
                  replicate winSize (0::number));
          coeffs = (getWindowCoefficients wType winSize StandardVariant,
                    getWindowCoefficients wType winSize Derivative,
                    getWindowCoefficients wType winSize TimeRamped);
          normFactor = (num fftSz * WINDOW_COHERENT_GAIN wType) / 2;
          gainOffset = gain_db - rng
      in loopContributions samples_in fftContext hop winSize zeroPad coeffs nFrames normFactor
           gainOffset rng [0..<nFrames] bufs)"

text \<open>The values contributed to the cell \<open>idx\<close>.\<close>

definition cellContributions :: "nat \<Rightarrow> (nat \<times> real) list \<Rightarrow> real list" where
  "cellContributions idx cs = map snd (filter (\<lambda>c. fst c = idx) cs)"

text \<open>
  The invariant of the accumulator: every cell lies in [0, 1], and a cell whose bin
  index (its position modulo the number of bins) is below 3 holds 0.
\<close>

definition cellsOk :: "nat \<Rightarrow> real list \<Rightarrow> bool" where
  "cellsOk nBins s \<longleftrightarrow>
     (\<forall>i<length s. 0 \<le> s ! i \<and> s ! i \<le> 1 \<and> (i mod nBins < 3 \<longrightarrow> s ! i = 0))"

text \<open>
  What every matrix of the standard algorithm satisfies: every cell lies in [0, 1] or is
  \<open>NaN\<close>, and a cell whose bin index is below 3 holds 0.
\<close>

definition cellsOkOrNaN :: "nat \<Rightarrow> number list \<Rightarrow> bool" where
  "cellsOkOrNaN nBins s \<longleftrightarrow>
     (\<forall>i<length s. (s ! i = NaN \<or> (\<exists>v. s ! i = Num v \<and> 0 \<le> v \<and> v \<le> 1)) \<and>
                     (i mod nBins < 3 \<longrightarrow> s ! i = 0))"

text \<open>
  The frame that iteration \<open>frame\<close> of the frame loops reads when all of it lies inside
  the input: the \<open>winSize\<close> samples from \<open>frame * hop\<close> on.
\<close>

definition frameWindow :: "'a list \<Rightarrow> nat \<Rightarrow> nat \<Rightarrow> nat \<Rightarrow> 'a list" where
  "frameWindow samples_in hop winSize frame =
     map (\<lambda>k. samples_in ! (frame * hop + k)) [0..<winSize]"

section \<open>Example inputs\<close>

text \<open>
  An example transform context: the discrete Fourier transform of the input buffer,
  which is what the FFT contexts of the scripts compute.
\<close>

definition dftContext :: "nat \<Rightarrow> FFTContext" where
  "dftContext N =
     \<lparr> ctx_size = N, ctx_isReal = True,
       ctx_run = (\<lambda>inp i.
         let k = i div 2
         in if even i
            then (\<Sum>n\<leftarrow>[0..<length inp].
                    inp ! n * Num (cos (2 * pi * real k * real n / real N)))
            else - (\<Sum>n\<leftarrow>[0..<length inp].
                      inp ! n * Num (sin (2 * pi * real k * real n / real N)))) \<rparr>"

text \<open>Sixteen samples, an impulse at the first one; transform size 8, hop size 4.\<close>

definition exampleOptions :: SpectrogramOptions where
  "exampleOptions =
     \<lparr> opt_samples = 1 # replicate 15 0, opt_sampleRate = 8000, opt_fftContext = dftContext 8,
       opt_hopSize = Some 4, opt_windowType = Some Rectangular, opt_zeroPadding = None,
       opt_gain = None, opt_range = None, opt_algorithm = Some Reassignment,
       opt_targetWidth = None \<rparr>"

text \<open>Eighteen samples, transform size 8, hop size 1 and a target width of 5 frames.\<close>

definition targetWidthExample :: SpectrogramOptions where
  "targetWidthExample =
     \<lparr> opt_samples = replicate 18 0, opt_sampleRate = 8000, opt_fftContext = dftContext 8,
       opt_hopSize = Some 1, opt_windowType = None, opt_zeroPadding = None,
       opt_gain = None, opt_range = None, opt_algorithm = None,
       opt_targetWidth = Some 5 \<rparr>"

text \<open>Sixteen samples, transform size 8 and a hop size of 0.\<close>

definition hopZeroExample :: SpectrogramOptions where
  "hopZeroExample =
     \<lparr> opt_samples = replicate 16 0, opt_sampleRate = 8000, opt_fftContext = dftContext 8,
       opt_hopSize = Some 0, opt_windowType = None, opt_zeroPadding = None,
       opt_gain = None, opt_range = None, opt_algorithm = None,
       opt_targetWidth = None \<rparr>"

text \<open>
  One sample, transform size 8 and a zero-padding factor of 8, so a window of one
  sample; the Hann window and the standard algorithm (the defaults).
\<close>

definition oneSampleWindowExample :: SpectrogramOptions where
  "oneSampleWindowExample =
     \<lparr> opt_samples = [1], opt_sampleRate = 8000, opt_fftContext = dftContext 8,
       opt_hopSize = None, opt_windowType = None, opt_zeroPadding = Some 8,
       opt_gain = None, opt_range = None, opt_algorithm = None,
       opt_targetWidth = None \<rparr>"

text \<open>
  The window tables of the rectangular window of size 8, and the three spectra of the
  first frame of the impulse example.
\<close>

definition rectCoeffs :: "number list \<times> number list \<times> number list" where
  "rectCoeffs = (getWindowCoefficients Rectangular 8 StandardVariant,
     getWindowCoefficients Rectangular 8 Derivative,
     getWindowCoefficients Rectangular 8 TimeRamped)"

definition impulseSpectra :: "number list \<times> number list \<times> number list" where
  "impulseSpectra =
     fst (frameTransforms (1 # replicate 15 0) (dftContext 8) 4 8 1 rectCoeffs 0
            (replicate 8 0, replicate 8 0, replicate 8 0))"

text \<open>
  A render call on a matrix of 2 frames and 3 bins that asks for an output of 10 by 10
  pixels.
\<close>

definition renderExample :: RenderOptions where
  "renderExample =
     \<lparr> ropt_spectrogram =
         \<lparr> data = replicate 6 0, numFrames = 2, numBins = 3, fftSize = 4, windowSize = 4,
           hopSize = 1, sampleRate = 8000, duration = 5 / 8000 \<rparr>,
       ropt_colorScale = None, ropt_freqScale = None, ropt_minFreq = None,
       ropt_maxFreq = None, ropt_frequencyGain = None, ropt_range = None,
       ropt_downsampleMode = None, ropt_interpolation = None,
       ropt_outputWidth = Some 10, ropt_outputHeight = Some 10 \<rparr>"



section \<open>Arithmetic of the numbers\<close>

lemma num_numeral: "(numeral k :: number) = Num (numeral k)"
proof (induction k)
  case One
  show ?case by (simp add: one_number_def)
next
  case (Bit0 k)
  have "(numeral (num.Bit0 k) :: number) = numeral k + numeral k" by (rule numeral.simps)
  also have "\<dots> = Num (numeral k) + Num (numeral k)" by (simp only: Bit0)
  also have "\<dots> = Num (numeral (num.Bit0 k))" by (simp add: plus_number_def numeral.simps(2))
  finally show ?case .
next
  case (Bit1 k)
  have "(numeral (num.Bit1 k) :: number) = numeral k + numeral k + 1" by (rule numeral.simps)
  also have "\<dots> = Num (numeral k) + Num (numeral k) + Num 1" by (simp only: Bit1 one_number_def)
  also have "\<dots> = Num (numeral (num.Bit1 k))" by (simp add: plus_number_def numeral.simps(3))
  finally show ?case .
qed

lemma Num_power: "Num a ^ n = Num (a ^ n)"
  by (induction n) (simp_all add: one_number_def times_number_def)

lemmas number_simps =
  zero_number_def one_number_def plus_number_def minus_number_def uminus_number_def
  times_number_def divide_number_def less_number_def less_eq_number_def num_numeral num_def
  Num_power signedInf_def

section \<open>Frame counts and the hop size\<close>

lemma windowSizeOf_pos: "0 < z \<Longrightarrow> windowSizeOf f z = num (f div z)"
proof -
  assume z: "0 < z"
  have "\<lfloor>real f / real z\<rfloor> = \<lfloor>real_of_int (int f) / real_of_int (int z)\<rfloor>" by simp
  also have "\<dots> = int f div int z" by (rule floor_divide_of_int_eq)
  finally have "\<lfloor>real f / real z\<rfloor> = int (f div z)" by (simp add: zdiv_int)
  then show ?thesis using z by (simp add: windowSizeOf_def number_simps)
qed

lemma windowSizeOf_zero: "windowSizeOf f 0 = (if f = 0 then NaN else PosInf)"
  by (simp add: windowSizeOf_def number_simps)

lemma frameCount_pos:
  "0 < hop \<Longrightarrow>
   frameCount L (num w) hop = Num (of_int ((int L - int w) div int hop + 1))"
proof -
  assume h: "0 < hop"
  have "\<lfloor>(real L - real w) / real hop\<rfloor> = \<lfloor>real_of_int (int L - int w) / real_of_int (int hop)\<rfloor>"
    by simp
  also have "\<dots> = (int L - int w) div int hop"
    by (rule floor_divide_of_int_eq)
  finally show ?thesis using h by (simp add: frameCount_def number_simps)
qed

lemma frameCount_hop0:
  "frameCount L (num w) 0 = (if w < L then PosInf else if L = w then NaN else NegInf)"
  by (simp add: frameCount_def number_simps)

lemma frameCount_PosInf: "frameCount L PosInf hop = NegInf"
  by (simp add: frameCount_def number_simps)

lemma frameCount_NaN: "frameCount L NaN hop = NaN"
  by (simp add: frameCount_def number_simps)

lemma floor_quotient_nat:
  "\<lfloor>(real L - real w) / real m\<rfloor> = (int L - int w) div int m"
proof -
  have "\<lfloor>(real L - real w) / real m\<rfloor> = \<lfloor>real_of_int (int L - int w) / real_of_int (int m)\<rfloor>"
    by simp
  also have "\<dots> = (int L - int w) div int m"
    by (rule floor_divide_of_int_eq)
  finally show ?thesis .
qed

lemma natOf_Math_max:
  "natOf (Math_max (num u) (Num (of_int k))) = nat (max (int u) k)"
proof (cases "real u < real_of_int k")
  case True
  then have "int u < k" by linarith
  then show ?thesis using True by (simp add: num_def max_def)
next
  case False
  then have "k \<le> int u" by linarith
  then show ?thesis using False by (auto simp: num_def max_def)
qed

lemma hopSizePolicy_num:
  "hopSizePolicy L (num w) u (Some tw) =
     (if 0 < tw \<and> num tw < frameCount L (num w) u
      then nat (max (int u) ((int L - int w) div int (max 1 (tw - 1))))
      else u)"
proof -
  have m: "Math_floor ((num L - num w) / num (max 1 (tw - 1)))
      = Num (of_int ((int L - int w) div int (max 1 (tw - 1))))"
    using floor_quotient_nat [of L w "max 1 (tw - 1)"]
    by (simp add: number_simps del: of_nat_max)
  show ?thesis
    unfolding hopSizePolicy_def option.case Let_def m natOf_Math_max by (simp del: One_nat_def)
qed

lemma hopSizePolicy_not_finite:
  "hopSizePolicy L PosInf u targetW = u" "hopSizePolicy L NaN u targetW = u"
  by (simp_all add: hopSizePolicy_def Let_def frameCount_PosInf frameCount_NaN less_number_def
      num_def split: option.splits)

lemma hopSizePolicy_None: "hopSizePolicy L W u None = u"
  by (simp add: hopSizePolicy_def)

lemma windowSizeOf_cases:
  "windowSizeOf f z = num (f div z) \<and> 0 < z \<or> windowSizeOf f z = PosInf \<or> windowSizeOf f z = NaN"
  by (cases "0 < z") (simp_all add: windowSizeOf_pos windowSizeOf_zero)

lemma hopSizePolicy_ge: "userHop \<le> hopSizePolicy L (windowSizeOf f z) userHop targetW"
proof (cases targetW)
  case None
  then show ?thesis by (simp add: hopSizePolicy_None)
next
  case (Some tw)
  have "userHop \<le> nat (max (int userHop) m)" for m by linarith
  then have "userHop \<le> hopSizePolicy L (num w) userHop (Some tw)" for w
    by (simp add: hopSizePolicy_num)
  then show ?thesis
    using windowSizeOf_cases [of f z] Some by (auto simp: hopSizePolicy_not_finite)
qed

lemma generateStandard_outcome:
  fixes smp c z hop
  defines "F \<equiv> frameCount (length smp) (windowSizeOf (ctx_size c) z) hop"
  shows "F \<le> 0 \<Longrightarrow> generateStandardSpectrogram smp rate c hop wt z gn r = Inl AudioTooShort"
    and "F = Num n \<Longrightarrow> 0 < n \<Longrightarrow>
           \<exists>s. generateStandardSpectrogram smp rate c hop wt z gn r = Inr (s, nat \<lfloor>n\<rfloor>)"
    and "F = PosInf \<Longrightarrow> generateStandardSpectrogram smp rate c hop wt z gn r = Inl InvalidArrayLength"
    and "F = NaN \<Longrightarrow> generateStandardSpectrogram smp rate c hop wt z gn r = Inl FrameCountNaN"
  unfolding F_def generateStandardSpectrogram_def Let_def
  by (simp_all add: less_eq_number_def zero_number_def)

lemma generateReassigned_outcome:
  fixes smp c z hop
  defines "F \<equiv> frameCount (length smp) (windowSizeOf (ctx_size c) z) hop"
  shows "F \<le> 0 \<Longrightarrow> generateReassignedSpectrogram smp rate c hop wt z gn r = Inl AudioTooShort"
    and "F = Num n \<Longrightarrow> 0 < n \<Longrightarrow>
           \<exists>s. generateReassignedSpectrogram smp rate c hop wt z gn r = Inr (s, nat \<lfloor>n\<rfloor>)"
    and "F = PosInf \<Longrightarrow> generateReassignedSpectrogram smp rate c hop wt z gn r = Inl InvalidArrayLength"
    and "F = NaN \<Longrightarrow> generateReassignedSpectrogram smp rate c hop wt z gn r = Inl FrameCountNaN"
  unfolding F_def generateReassignedSpectrogram_def Let_def
  by (simp_all add: less_eq_number_def zero_number_def)

lemma generateSpectrogram_result:
  fixes opts
  defines "W \<equiv> windowSizeOf (ctx_size (opt_fftContext opts)) (zeroPaddingOf opts)"
  defines "hop \<equiv> hopSizePolicy (length (opt_samples opts)) W (userHopSize opts) (opt_targetWidth opts)"
  defines "F \<equiv> frameCount (length (opt_samples opts)) W hop"
  shows "F \<le> 0 \<Longrightarrow> generateSpectrogram opts = Inl AudioTooShort"
    and "F = Num n \<Longrightarrow> 0 < n \<Longrightarrow>
           \<exists>res. generateSpectrogram opts = Inr res \<and> numFrames res = nat \<lfloor>n\<rfloor> \<and>
             windowSize res = natOf W \<and> hopSize res = hop \<and>
             numBins res = ctx_size (opt_fftContext opts) div 2 + 1 \<and>
             fftSize res = ctx_size (opt_fftContext opts)"
    and "F = PosInf \<Longrightarrow> generateSpectrogram opts = Inl InvalidArrayLength"
    and "F = NaN \<Longrightarrow> generateSpectrogram opts = Inl FrameCountNaN"
proof -
  let ?c = "opt_fftContext opts"
  note o1 = generateStandard_outcome [of "opt_samples opts" ?c "zeroPaddingOf opts" hop,
      folded W_def, folded F_def]
  note o2 = generateReassigned_outcome [of "opt_samples opts" ?c "zeroPaddingOf opts" hop,
      folded W_def, folded F_def]
  show "F \<le> 0 \<Longrightarrow> generateSpectrogram opts = Inl AudioTooShort"
    unfolding generateSpectrogram_def Let_def W_def [symmetric] hop_def [symmetric]
    by (simp add: o1(1) o2(1))
  show "F = PosInf \<Longrightarrow> generateSpectrogram opts = Inl InvalidArrayLength"
    unfolding generateSpectrogram_def Let_def W_def [symmetric] hop_def [symmetric]
    by (simp add: o1(3) o2(3))
  show "F = NaN \<Longrightarrow> generateSpectrogram opts = Inl FrameCountNaN"
    unfolding generateSpectrogram_def Let_def W_def [symmetric] hop_def [symmetric]
    by (simp add: o1(4) o2(4))
  assume n: "F = Num n" "0 < n"
  from o1(2) [OF n] obtain s1 where s1: "generateStandardSpectrogram (opt_samples opts)
      (opt_sampleRate opts) ?c hop
      (case opt_windowType opts of Some w \<Rightarrow> w | None \<Rightarrow> Hann) (zeroPaddingOf opts)
      (case opt_gain opts of Some g \<Rightarrow> g | None \<Rightarrow> 0)
      (case opt_range opts of Some r \<Rightarrow> r | None \<Rightarrow> 80) = Inr (s1, nat \<lfloor>n\<rfloor>)"
    by blast
  from o2(2) [OF n] obtain s2 where s2: "generateReassignedSpectrogram (opt_samples opts)
      (opt_sampleRate opts) ?c hop
      (case opt_windowType opts of Some w \<Rightarrow> w | None \<Rightarrow> Hann) (zeroPaddingOf opts)
      (case opt_gain opts of Some g \<Rightarrow> g | None \<Rightarrow> 0)
      (case opt_range opts of Some r \<Rightarrow> r | None \<Rightarrow> 80) = Inr (s2, nat \<lfloor>n\<rfloor>)"
    by blast
  show "\<exists>res. generateSpectrogram opts = Inr res \<and> numFrames res = nat \<lfloor>n\<rfloor> \<and>
             windowSize res = natOf W \<and> hopSize res = hop \<and>
             numBins res = ctx_size (opt_fftContext opts) div 2 + 1 \<and>
             fftSize res = ctx_size (opt_fftContext opts)"
    unfolding generateSpectrogram_def Let_def W_def [symmetric] hop_def [symmetric]
    by (simp add: s1 s2 del: One_nat_def)
qed

lemma hopSizePolicy_raised:
  assumes "0 < userHop" and "2 \<le> tw" and "num tw < frameCount L (num W) userHop"
  shows "hopSizePolicy L (num W) userHop (Some tw) = nat ((int L - int W) div int (tw - 1))"
    and "frameCount L (num W) (hopSizePolicy L (num W) userHop (Some tw)) =
           Num (of_int (int tw +
             ((int L - int W) mod int (tw - 1)) div ((int L - int W) div int (tw - 1))))"
proof -
  define D where "D = int L - int W"
  define t where "t = int (tw - 1)"
  define h where "h = int userHop"
  define q where "q = D div t"
  have t: "0 < t" "int tw = t + 1" using assms(2) by (simp_all add: t_def)
  have h: "0 < h" using assms(1) by (simp add: h_def)
  have "real tw < real_of_int (D div h + 1)"
    using assms(3) unfolding frameCount_pos [OF assms(1)] D_def h_def
    by (simp add: num_def less_number_def)
  then have "int tw < D div h + 1" by linarith
  then have "t + 1 \<le> D div h" using t by simp
  then have "(t + 1) * h \<le> (D div h) * h" using h by (intro mult_right_mono) simp_all
  also have "\<dots> \<le> D"
  proof -
    have "0 \<le> D mod h" using h by simp
    moreover have "D = (D div h) * h + D mod h" by simp
    ultimately show ?thesis by linarith
  qed
  finally have D: "(t + 1) * h \<le> D" .
  have "h * t \<le> D" using D h t by (simp add: algebra_simps)
  then have "(h * t) div t \<le> D div t" using t by (intro zdiv_mono1) simp_all
  then have hq: "h \<le> q" unfolding q_def using t by simp
  then have q: "0 < q" using h by simp
  have m: "max 1 (tw - 1) = tw - 1" using assms(2) by simp
  show p: "hopSizePolicy L (num W) userHop (Some tw) = nat ((int L - int W) div int (tw - 1))"
    using assms hq
    unfolding hopSizePolicy_num m q_def D_def t_def h_def by simp
  have "D = q * t + D mod t" unfolding q_def by simp
  then have "D div q = (D mod t + t * q) div q" by (simp add: mult.commute add.commute)
  also have "\<dots> = t + D mod t div q" using q by simp
  finally have e: "D div q + 1 = int tw + D mod t div q" using t by simp
  have pos: "0 < nat q" using q by simp
  have "frameCount L (num W) (nat q) = Num (of_int (D div q + 1))"
    unfolding frameCount_pos [OF pos] using q by (simp add: D_def)
  then show "frameCount L (num W) (hopSizePolicy L (num W) userHop (Some tw)) =
           Num (of_int (int tw +
             ((int L - int W) mod int (tw - 1)) div ((int L - int W) div int (tw - 1))))"
    unfolding p e using q by (simp add: q_def D_def t_def)
qed

text \<open>
  C2: with a target width of 5 frames, 18 samples, a window of 8 samples and a hop size
  of 1 (11 frames), the hop size is raised to 2 only, and the call returns 6 frames.
  Likewise 1001024 samples, a window of 1024 samples, a hop size of 128 and a target
  width of 4000 give a hop size of 250 and 4001 frames.
\<close>

theorem target_width_exceeded:
  "opt_targetWidth targetWidthExample = Some 5 \<and>
   frameCount (length (opt_samples targetWidthExample)) 8 (userHopSize targetWidthExample) = 11 \<and>
   map_sum id hopSize (generateSpectrogram targetWidthExample) = Inr 2 \<and>
   map_sum id numFrames (generateSpectrogram targetWidthExample) = Inr 6 \<and>
   hopSizePolicy 1001024 1024 128 (Some 4000) = 250 \<and>
   frameCount 1001024 1024 (hopSizePolicy 1001024 1024 128 (Some 4000)) = 4001"
proof -
  have e: "windowSizeOf (ctx_size (opt_fftContext targetWidthExample))
             (zeroPaddingOf targetWidthExample) = num 8"
    "length (opt_samples targetWidthExample) = 18" "userHopSize targetWidthExample = 1"
    "opt_targetWidth targetWidthExample = Some 5"
    by (simp_all add: targetWidthExample_def userHopSize_def zeroPaddingOf_def dftContext_def
        windowSizeOf_pos)
  have k: "(8::number) = num 8" "(1024::number) = num 1024" by (simp_all add: number_simps)
  have f: "frameCount 18 (num 8) 1 = 11" "frameCount 18 (num 8) 2 = Num 6"
    by (simp_all add: frameCount_def number_simps)
  have h: "hopSizePolicy 18 (num 8) 1 (Some 5) = 2"
    unfolding hopSizePolicy_num by (simp add: frameCount_def number_simps)
  have g: "hopSizePolicy 1001024 (num 1024) 128 (Some 4000) = 250"
    unfolding hopSizePolicy_num by (simp add: frameCount_def number_simps)
  have g': "frameCount 1001024 (num 1024) 250 = 4001"
    by (simp add: frameCount_def number_simps)
  from generateSpectrogram_result(2) [of targetWidthExample 6, unfolded e h f]
  obtain res where "generateSpectrogram targetWidthExample = Inr res" "numFrames res = 6"
    "hopSize res = 2" by auto
  then show ?thesis unfolding k using e f g g' by simp
qed

section \<open>Invariant of the accumulator\<close>

lemma cellsOk_replicate: "cellsOk nBins (replicate n 0)"
  by (simp add: cellsOk_def)

lemma normalizeDb_cases:
  "normalizeDb d g r = NaN \<or> (\<exists>v. normalizeDb d g r = Num v \<and> 0 \<le> v \<and> v \<le> 1)"
  unfolding normalizeDb_def Let_def
  by (cases "(d - g) / r") (simp_all add: less_number_def zero_number_def one_number_def)

lemma normalizeDb_Num: "normalizeDb d g r = Num v \<Longrightarrow> 0 \<le> v \<and> v \<le> 1"
  using normalizeDb_cases [of d g r] by auto

lemma frameCount_Num:
  assumes "frameCount L W hop = Num x"
  shows "\<exists>k. x = of_int k"
proof -
  have "\<exists>k. real_of_int j + 1 = real_of_int k" for j
    by (rule exI [of _ "j + 1"]) simp
  with assms show ?thesis
    unfolding frameCount_def
    by (cases "(num L - W) / num hop") (auto simp: plus_number_def one_number_def)
qed

lemma frameCount_Num_nat:
  assumes "frameCount L W hop = Num x" "0 < x"
  shows "Num (real (nat \<lfloor>x\<rfloor>)) = frameCount L W hop" "0 < nat \<lfloor>x\<rfloor>"
proof -
  from frameCount_Num [OF assms(1)] obtain k where k: "x = of_int k" by blast
  then have "0 < k" using assms(2) by simp
  then show "Num (real (nat \<lfloor>x\<rfloor>)) = frameCount L W hop" "0 < nat \<lfloor>x\<rfloor>"
    using assms(1) k by simp_all
qed

lemma binContribution_SomeD:
  assumes "binContribution fftSz hop nBins nFrames nf g r frame X bin = Some c"
  shows "0 \<le> snd c \<and> snd c \<le> 1 \<and> 3 \<le> fst c mod nBins \<and> fst c < nFrames * nBins"
proof -
  from assms obtain rb rf mag v where
    b: "3 \<le> rb" "rb < int nBins" "0 \<le> rf" "rf < int nFrames"
    and v: "normalizeDb (magnitudeToDbOf (mag / nf)) g r = Num v"
    and c: "c = (nat (rf * int nBins + rb), v)"
    unfolding binContribution_def Let_def
    by (auto split: option.splits prod.splits if_splits number.splits)
  obtain f b' where f: "rf = int f" and b': "rb = int b'"
    using b by (metis nonneg_int_cases order_trans zero_le_numeral)
  have idx: "fst c = f * nBins + b'"
    unfolding c f b' by (simp add: nat_add_distrib nat_mult_distrib flip: of_nat_mult of_nat_add)
  have b3: "3 \<le> b'" "b' < nBins" "f < nFrames" using b f b' by simp_all
  have "(f * nBins + b') mod nBins = b'" using b3 by simp
  moreover have "f * nBins + b' < nFrames * nBins"
  proof -
    have "f * nBins + b' < (f + 1) * nBins" using b3 by simp
    also have "\<dots> \<le> nFrames * nBins" using b3 by (intro mult_le_mono1) simp
    finally show ?thesis .
  qed
  ultimately show ?thesis using b3 idx normalizeDb_Num [OF v] by (simp add: c)
qed

lemma accumulate_length: "length (accumulate c acc) = length acc"
  by (simp add: accumulate_def)

lemma accumulate_nth:
  "j < length acc \<Longrightarrow>
   accumulate c acc ! j = (if fst c = j then max (acc ! j) (snd c) else acc ! j)"
  by (auto simp: accumulate_def nth_list_update max_def)

lemma accumulate_ok:
  assumes "cellsOk nBins acc" "0 \<le> snd c" "snd c \<le> 1" "3 \<le> fst c mod nBins"
  shows "cellsOk nBins (accumulate c acc)"
  using assms unfolding cellsOk_def by (auto simp: accumulate_length accumulate_nth)

lemma reassignBin_ok:
  "cellsOk nBins acc \<Longrightarrow>
   cellsOk nBins (reassignBin fftSz hop nBins nFrames nf g r frame X bin acc)"
  unfolding reassignBin_def
  by (auto split: option.splits dest!: binContribution_SomeD intro!: accumulate_ok)

lemma reassignBin_length:
  "length (reassignBin fftSz hop nBins nFrames nf g r frame X bin acc) = length acc"
  unfolding reassignBin_def by (simp add: accumulate_length split: option.splits)

lemma binLoop_ok:
  "cellsOk nBins acc \<Longrightarrow>
   cellsOk nBins (fold (reassignBin fftSz hop nBins nFrames nf g r frame X) bs acc)"
  by (induction bs arbitrary: acc) (simp_all add: reassignBin_ok)

lemma binLoop_length:
  "length (fold (reassignBin fftSz hop nBins nFrames nf g r frame X) bs acc) = length acc"
  by (induction bs arbitrary: acc) (simp_all add: reassignBin_length)

lemma reassignedFrame_ok:
  "cellsOk (ctx_size c div 2 + 1) (fst st) \<Longrightarrow>
   cellsOk (ctx_size c div 2 + 1)
     (fst (reassignedFrame smp c hop w z co nFrames nf g r frame st))"
  unfolding reassignedFrame_def processReassignedFrame_def Let_def fst_conv by (rule binLoop_ok)

lemma reassignedFrame_length:
  "length (fst (reassignedFrame smp c hop w z co nFrames nf g r frame st)) = length (fst st)"
  unfolding reassignedFrame_def processReassignedFrame_def Let_def fst_conv
  by (rule binLoop_length)

lemma reassignedLoop_ok:
  "cellsOk (ctx_size c div 2 + 1) (fst st) \<Longrightarrow>
   cellsOk (ctx_size c div 2 + 1)
     (fst (fold (reassignedFrame smp c hop w z co nFrames nf g r) fs st))"
  by (induction fs arbitrary: st) (simp_all add: reassignedFrame_ok del: One_nat_def)

lemma reassignedLoop_length:
  "length (fst (fold (reassignedFrame smp c hop w z co nFrames nf g r) fs st)) = length (fst st)"
  by (induction fs arbitrary: st) (simp_all add: reassignedFrame_length)

lemma generateReassigned_SomeD:
  assumes "generateReassignedSpectrogram smp rate c hop wt z gn r = Inr (s, n)"
  shows "\<exists>x. frameCount (length smp) (windowSizeOf (ctx_size c) z) hop = Num x \<and> 0 < x \<and>
           n = nat \<lfloor>x\<rfloor> \<and>
           s = fst (fold (reassignedFrame smp c hop (natOf (windowSizeOf (ctx_size c) z)) z
              (getWindowCoefficients wt (natOf (windowSizeOf (ctx_size c) z)) StandardVariant,
               getWindowCoefficients wt (natOf (windowSizeOf (ctx_size c) z)) Derivative,
               getWindowCoefficients wt (natOf (windowSizeOf (ctx_size c) z)) TimeRamped)
              n (num (ctx_size c) * WINDOW_COHERENT_GAIN wt / 2) (gn - r) r)
            [0..<n]
            (replicate (n * (ctx_size c div 2 + 1)) 0,
             replicate (natOf (windowSizeOf (ctx_size c) z)) 0,
             replicate (natOf (windowSizeOf (ctx_size c) z)) 0,
             replicate (natOf (windowSizeOf (ctx_size c) z)) 0))"
  using assms
  unfolding generateReassignedSpectrogram_def Let_def
  by (auto split: if_splits number.splits simp: less_eq_number_def zero_number_def
      simp del: One_nat_def)

lemma generateReassigned_ok:
  assumes "generateReassignedSpectrogram smp rate c hop wt z gn r = Inr (s, n)"
  shows "cellsOk (ctx_size c div 2 + 1) s \<and> length s = n * (ctx_size c div 2 + 1) \<and> 0 < n
    \<and> Num (real n) = frameCount (length smp) (windowSizeOf (ctx_size c) z) hop"
proof -
  from generateReassigned_SomeD [OF assms] obtain x where
    x: "frameCount (length smp) (windowSizeOf (ctx_size c) z) hop = Num x" "0 < x"
    and n: "n = nat \<lfloor>x\<rfloor>"
    and s: "s = fst (fold (reassignedFrame smp c hop (natOf (windowSizeOf (ctx_size c) z)) z
              (getWindowCoefficients wt (natOf (windowSizeOf (ctx_size c) z)) StandardVariant,
               getWindowCoefficients wt (natOf (windowSizeOf (ctx_size c) z)) Derivative,
               getWindowCoefficients wt (natOf (windowSizeOf (ctx_size c) z)) TimeRamped)
              n (num (ctx_size c) * WINDOW_COHERENT_GAIN wt / 2) (gn - r) r)
            [0..<n]
            (replicate (n * (ctx_size c div 2 + 1)) 0,
             replicate (natOf (windowSizeOf (ctx_size c) z)) 0,
             replicate (natOf (windowSizeOf (ctx_size c) z)) 0,
             replicate (natOf (windowSizeOf (ctx_size c) z)) 0))"
    by blast
  have "cellsOk (ctx_size c div 2 + 1) s"
    by (subst s, rule reassignedLoop_ok) (simp add: cellsOk_replicate del: One_nat_def)
  moreover have "length s = n * (ctx_size c div 2 + 1)"
    by (subst s) (simp add: reassignedLoop_length del: One_nat_def)
  ultimately show ?thesis using frameCount_Num_nat [OF x] n by simp
qed

section \<open>The matrix of the reassignment algorithm as a maximum\<close>

lemma binLoop_contributions:
  "fold (reassignBin fftSz hop nBins nFrames nf g r frame X) bs acc =
   fold accumulate
     (List.map_filter (binContribution fftSz hop nBins nFrames nf g r frame X) bs) acc"
  by (induction bs arbitrary: acc)
     (simp_all add: reassignBin_def split: option.splits)

lemma reassignedLoop_contributions:
  "fst (fold (reassignedFrame smp c hop w z co nFrames nf g r) fs (acc, bufs)) =
   fold accumulate (loopContributions smp c hop w z co nFrames nf g r fs bufs) acc"
proof (induction fs arbitrary: acc bufs)
  case Nil
  then show ?case by simp
next
  case (Cons f fs)
  have step: "reassignedFrame smp c hop w z co nFrames nf g r f (acc, bufs) =
    (fold accumulate (frameContributions (ctx_size c) hop (ctx_size c div 2 + 1) nFrames nf g r f
        (fst (frameTransforms smp c hop w z co f bufs))) acc,
     snd (frameTransforms smp c hop w z co f bufs))"
    unfolding reassignedFrame_def processReassignedFrame_def frameTransforms_def
      frameContributions_def Let_def fst_conv snd_conv
    by (simp only: binLoop_contributions)
  show ?case
    by (simp only: fold_simps step Cons.IH loopContributions.simps Let_def fold_append o_apply)
qed

lemma fold_accumulate_length: "length (fold accumulate cs acc) = length acc"
  by (induction cs arbitrary: acc) (simp_all add: accumulate_length)

lemma fold_accumulate_nth:
  "j < length acc \<Longrightarrow>
   fold accumulate cs acc ! j = fold max (cellContributions j cs) (acc ! j)"
proof (induction cs arbitrary: acc)
  case Nil
  then show ?case by (simp add: cellContributions_def)
next
  case (Cons c cs)
  have "fold accumulate (c # cs) acc ! j
      = fold max (cellContributions j cs) (accumulate c acc ! j)"
    using Cons by (simp add: accumulate_length)
  also have "\<dots> = fold max (cellContributions j (c # cs)) (acc ! j)"
    using Cons.prems by (simp add: accumulate_nth cellContributions_def max.commute)
  finally show ?case .
qed

lemma fold_max_Max: "fold max vs (a::real) = Max (insert a (set vs))"
  using Max.set_eq_fold [of a vs] by simp

lemma generateReassigned_contributions:
  assumes "generateReassignedSpectrogram smp rate c hop wt z gn r = Inr (s, n)"
  shows "s = fold accumulate (reassignmentContributions smp c hop wt z gn r)
               (replicate (n * (ctx_size c div 2 + 1)) 0)"
proof -
  from generateReassigned_SomeD [OF assms] obtain x where
    x: "frameCount (length smp) (windowSizeOf (ctx_size c) z) hop = Num x"
    and n: "n = nat \<lfloor>x\<rfloor>"
    and s: "s = fst (fold (reassignedFrame smp c hop (natOf (windowSizeOf (ctx_size c) z)) z
              (getWindowCoefficients wt (natOf (windowSizeOf (ctx_size c) z)) StandardVariant,
               getWindowCoefficients wt (natOf (windowSizeOf (ctx_size c) z)) Derivative,
               getWindowCoefficients wt (natOf (windowSizeOf (ctx_size c) z)) TimeRamped)
              n (num (ctx_size c) * WINDOW_COHERENT_GAIN wt / 2) (gn - r) r)
            [0..<n]
            (replicate (n * (ctx_size c div 2 + 1)) 0,
             replicate (natOf (windowSizeOf (ctx_size c) z)) 0,
             replicate (natOf (windowSizeOf (ctx_size c) z)) 0,
             replicate (natOf (windowSizeOf (ctx_size c) z)) 0))"
    by blast
  have nf: "natOf (frameCount (length smp) (windowSizeOf (ctx_size c) z) hop) = n"
    unfolding x n by simp
  show ?thesis
    by (subst s) (simp only: reassignedLoop_contributions reassignmentContributions_def Let_def nf)
qed

text \<open>
  C5: in the reassignment algorithm the matrix is the accumulator after every
  contribution of the run has been applied in turn to the zero matrix; each cell holds
  the maximum of 0 and the values contributed to it, so it is 0 or one of these values
  and no smaller than any of them; and applying one more contribution never decreases a
  cell.
\<close>

theorem reassignment_cell_is_max:
  assumes "generateReassignedSpectrogram smp rate c hop wt z gn r = Inr (s, n)"
    and "idx < length s"
  shows "s = fold accumulate (reassignmentContributions smp c hop wt z gn r)
               (replicate (n * (ctx_size c div 2 + 1)) 0) \<and>
         s ! idx = Max (insert 0 (set (cellContributions idx
                      (reassignmentContributions smp c hop wt z gn r)))) \<and>
         (s ! idx = 0 \<or>
          s ! idx \<in> set (cellContributions idx (reassignmentContributions smp c hop wt z gn r))) \<and>
         (\<forall>v \<in> set (cellContributions idx (reassignmentContributions smp c hop wt z gn r)).
            v \<le> s ! idx) \<and>
         (\<forall>c' acc j. j < length acc \<longrightarrow> acc ! j \<le> accumulate c' acc ! j)"
proof -
  let ?cs = "reassignmentContributions smp c hop wt z gn r"
  let ?vs = "cellContributions idx ?cs"
  let ?z = "replicate (n * (ctx_size c div 2 + 1)) (0::real)"
  have s: "s = fold accumulate ?cs ?z"
    using assms(1) by (rule generateReassigned_contributions)
  have idx: "idx < length ?z"
    using assms(2) by (subst (asm) s) (simp only: fold_accumulate_length)
  have "s ! idx = fold max ?vs (?z ! idx)"
    by (subst s) (rule fold_accumulate_nth [OF idx])
  also have "?z ! idx = 0" using idx by (simp del: One_nat_def)
  finally have m: "s ! idx = Max (insert 0 (set ?vs))" by (simp only: fold_max_Max)
  have fin: "finite (insert 0 (set ?vs))" by simp
  have mem: "s ! idx \<in> insert 0 (set ?vs)"
    unfolding m by (rule Max_in [OF fin]) simp
  have ge: "v \<le> s ! idx" if "v \<in> set ?vs" for v
    unfolding m using that by (intro Max_ge) simp_all
  have mono: "acc ! j \<le> accumulate c' acc ! j" if "j < length acc" for c' acc j
    using that by (simp add: accumulate_nth)
  show ?thesis using s m mem ge mono by blast
qed

theorem reassignment_cell_is_max_witness:
  "\<exists>s. generateReassignedSpectrogram (1 # replicate 15 0) 8000 (dftContext 8) 4 Rectangular 1 0 80
          = Inr (s, 3) \<and>
       s ! 3 = Max (insert 0 (set (cellContributions 3
                 (reassignmentContributions (1 # replicate 15 0) (dftContext 8) 4 Rectangular 1
                    0 80))))"
proof -
  have n: "frameCount (length (1 # replicate 15 (0::number)))
             (windowSizeOf (ctx_size (dftContext 8)) 1) 4 = Num 3"
    by (simp add: frameCount_def windowSizeOf_def dftContext_def number_simps)
  from generateReassigned_outcome(2) [OF n, of 8000 Rectangular 0 80]
  obtain s where
    s: "generateReassignedSpectrogram (1 # replicate 15 0) 8000 (dftContext 8) 4 Rectangular 1 0 80
          = Inr (s, 3)"
    by auto
  from generateReassigned_ok [OF s] have len: "3 < length s" by (simp add: dftContext_def)
  from reassignment_cell_is_max [OF s len] s show ?thesis by blast
qed

section \<open>The impulse example, evaluated\<close>

lemma fold_update_prefix:
  "n \<le> length out \<Longrightarrow>
   fold (\<lambda>i res. res[i := g i]) [0..<n] out = map g [0..<n] @ drop n out"
proof (induction n)
  case 0
  then show ?case by simp
next
  case (Suc n)
  then have "fold (\<lambda>i res. res[i := g i]) [0..<Suc n] out = (map g [0..<n] @ drop n out)[n := g n]"
    by simp
  also have "\<dots> = map g [0..<n] @ (drop n out)[0 := g n]"
    by (simp add: list_update_append)
  also have "drop n out = out ! n # drop (Suc n) out"
    using Suc.prems by (simp add: Cons_nth_drop_Suc)
  also have "map g [0..<n] @ (out ! n # drop (Suc n) out)[0 := g n]
      = map g [0..<Suc n] @ drop (Suc n) out"
    by simp
  finally show ?case .
qed

lemma applyWindowCoefficients_full:
  "length output = length frame \<Longrightarrow>
   applyWindowCoefficients frame coefficients output =
   map (\<lambda>i. frame ! i * coefficients ! i) [0..<length frame]"
  unfolding applyWindowCoefficients_def by (simp add: fold_update_prefix)

lemma applyWindowCoefficients_impulse:
  assumes "length output = Suc m" "length cs = Suc m"
  shows "applyWindowCoefficients (Num a # replicate m 0) (map Num cs) output
     = Num (a * cs ! 0) # replicate m 0"
proof -
  have "map (\<lambda>i. (Num a # replicate m 0) ! i * map Num cs ! i) [0..<Suc m]
      = (Num a * map Num cs ! 0) # map (\<lambda>i. replicate m 0 ! i * map Num cs ! Suc i) [0..<m]"
    by (simp add: upt_conv_Cons map_Suc_upt [symmetric] comp_def del: upt_Suc)
  also have "map (\<lambda>i. replicate m 0 ! i * map Num cs ! Suc i) [0..<m] = replicate m (0::number)"
    using assms(2) by (simp add: list_eq_iff_nth_eq zero_number_def times_number_def)
  also have "Num a * map Num cs ! 0 = Num (a * cs ! 0)"
    using assms(2) by (simp add: times_number_def)
  finally show ?thesis using assms(1) by (simp add: applyWindowCoefficients_full del: upt_Suc)
qed

lemma dft_impulse:
  "ctx_run (dftContext N) (Num a # replicate m 0) i = (if even i then Num a else 0)"
proof -
  have z: "(\<Sum>n\<leftarrow>[0..<Suc m]. (Num a # replicate m 0) ! n * Num (f n)) = Num (a * f 0)"
    for f :: "nat \<Rightarrow> real"
  proof -
    have "[0..<Suc m] = 0 # map Suc [0..<m]"
      by (simp add: upt_conv_Cons map_Suc_upt [symmetric] del: upt_Suc)
    then have "(\<Sum>n\<leftarrow>[0..<Suc m]. (Num a # replicate m 0) ! n * Num (f n))
        = Num a * Num (f 0) + (\<Sum>n\<leftarrow>[0..<m]. replicate m 0 ! n * Num (f (Suc n)))"
      by (simp add: comp_def del: upt_Suc)
    also have "(\<Sum>n\<leftarrow>[0..<m]. replicate m 0 ! n * Num (f (Suc n))) = (\<Sum>n\<leftarrow>[0..<m]. (0::number))"
      by (rule arg_cong [where f = sum_list]) (simp add: zero_number_def times_number_def)
    also have "(\<Sum>n\<leftarrow>[0..<m]. (0::number)) = 0" by simp
    also have "Num a * Num (f 0) + 0 = Num (a * f 0)" by (simp add: times_number_def)
    finally show ?thesis .
  qed
  show ?thesis unfolding dftContext_def
    by (simp add: z Let_def del: upt_Suc) (simp add: zero_number_def uminus_number_def)
qed

lemma runFFT_impulse:
  "runFFT (dftContext N) (Num a # replicate m 0) N
     = map (\<lambda>i. if even i then Num a else 0) [0..<(N div 2 + 1) * 2]"
  unfolding runFFT_def Let_def
  by (simp add: dft_impulse del: upt_Suc replicate.simps) (simp add: dftContext_def)

lemma rectCoeffs_eq:
  "fst rectCoeffs = map Num (replicate 8 1)"
  "fst (snd rectCoeffs) = map Num (replicate 8 0)"
  "snd (snd rectCoeffs) = map Num (map (\<lambda>i. real i - 7 / 2) [0..<8])"
  by (simp_all add: rectCoeffs_def getWindowCoefficients_def number_simps list_eq_iff_nth_eq
      del: upt_Suc)

lemma rectCoeffs_tuple:
  "rectCoeffs = (map Num (replicate 8 1), map Num (replicate 8 0),
     map Num (map (\<lambda>i. real i - 7 / 2) [0..<8]))"
  using rectCoeffs_eq by (metis prod.collapse)

lemma sub0: "subarray (1 # replicate 15 (0::number)) (0 * 4) (0 * 4 + 8) = Num 1 # replicate 7 0"
  by (simp add: subarray_def one_number_def)

lemma rep8: "replicate 8 (0::number) = Num 0 # replicate 7 0"
  using replicate_Suc [of 7 "0::number"] by (simp add: zero_number_def)

lemma sub1: "subarray (1 # replicate 15 (0::number)) (1 * 4) (1 * 4 + 8) = Num 0 # replicate 7 0"
  by (simp add: subarray_def rep8)

lemma sub2: "subarray (1 # replicate 15 (0::number)) (2 * 4) (2 * 4 + 8) = Num 0 # replicate 7 0"
  by (simp add: subarray_def rep8)

lemma frameTransforms_impulse:
  assumes "subarray smp (frame * hop) (frame * hop + 8) = Num a # replicate 7 0"
    and "length (fst bufs) = 8" "length (fst (snd bufs)) = 8" "length (snd (snd bufs)) = 8"
    and "length c1 = 8" "length c2 = 8" "length c3 = 8"
  shows "frameTransforms smp (dftContext 8) hop 8 1 (map Num c1, map Num c2, map Num c3) frame bufs =
    ((map (\<lambda>i. if even i then Num (a * c1 ! 0) else 0) [0..<10],
      map (\<lambda>i. if even i then Num (a * c2 ! 0) else 0) [0..<10],
      map (\<lambda>i. if even i then Num (a * c3 ! 0) else 0) [0..<10]),
     (Num (a * c1 ! 0) # replicate 7 0, Num (a * c2 ! 0) # replicate 7 0,
      Num (a * c3 ! 0) # replicate 7 0))"
proof -
  have c: "ctx_size (dftContext 8) = 8" by (simp add: dftContext_def)
  have r: "runFFT (dftContext 8) (Num x # replicate 7 0) 8
      = map (\<lambda>i. if even i then Num x else 0) [0..<10]" for x
    using runFFT_impulse [of 8 x 7] by simp
  have w: "applyWindowCoefficients (Num a # replicate 7 0) (map Num cs) out
      = Num (a * cs ! 0) # replicate 7 0" if "length out = 8" "length cs = 8" for cs out
    using applyWindowCoefficients_impulse [of out 7 cs a] that by simp
  show ?thesis
    unfolding frameTransforms_def windowedTransforms_def Let_def c assms(1) zeroPadInput_def
      fst_conv snd_conv
    using assms(2-7)
    by (simp only: w r if_False less_irrefl)
qed

lemma nth_spectrum:
  assumes "bin < 5"
  shows "map f [0..<10] ! (bin * 2) = f (bin * 2)"
    "map f [0..<10] ! (bin * 2 + 1) = f (bin * 2 + 1)"
  using assms by (simp_all del: upt_Suc)

lemma binCorrections_impulse:
  assumes "bin < 5" "0 < hop"
  shows "binCorrections 8 hop bin (map (\<lambda>i. if even i then Num h else 0) [0..<10])
           (map (\<lambda>i. if even i then Num d else 0) [0..<10])
           (map (\<lambda>i. if even i then Num t else 0) [0..<10]) =
         (if h * h < 1 / 10 ^ 20 then None
          else Some (Num 0, Num (t * h / (h * h) / real hop), Num (sqrt (h * h))))"
proof -
  have e: "even (bin * 2)" "\<not> even (bin * 2 + 1)" by simp_all
  show ?thesis
    unfolding binCorrections_def Let_def nth_spectrum [OF assms(1)]
    using assms(2)
    by (simp only: e if_True if_False) (auto simp: number_simps Math_PI_def)
qed

lemma magnitudeToDbOf_Num:
  "0 \<le> m \<Longrightarrow> magnitudeToDbOf (Num m) = Num (magnitudeToDb m)"
proof -
  assume "0 \<le> m"
  then have "0 < m + 1 / 10 ^ 10" by (simp add: add_nonneg_pos)
  then show ?thesis
    by (simp add: magnitudeToDbOf_def magnitudeToDb_def plus_number_def times_number_def)
qed

lemma db_quarter_bounds:
  "- 80 < magnitudeToDb (1 / 4)" "magnitudeToDb (1 / 4) < 0"
proof -
  let ?q = "1 / 4 + 1 / 10 ^ 10 :: real"
  have l10: "0 < ln (10::real)" by simp
  have "(1 / 10) ^ 4 < ?q" by (simp add: power_divide)
  then have "ln ((1/10) ^ 4 :: real) < ln ?q"
    by (subst ln_less_cancel_iff) simp_all
  then have "- 4 * ln (10::real) < ln ?q"
    by (simp add: ln_realpow ln_div)
  then have "- 80 * ln (10::real) < 20 * ln ?q" by simp
  then have "- 80 < 20 * ln ?q / ln 10"
    using l10 by (simp add: pos_less_divide_eq)
  then show "- 80 < magnitudeToDb (1 / 4)"
    by (simp add: magnitudeToDb_def DB_SCALE_FACTOR_def)
  have "ln ?q < 0" by (subst ln_less_zero_iff) simp_all
  then have "20 * ln ?q / ln 10 < 0" using l10 by (simp add: divide_neg_pos)
  then show "magnitudeToDb (1 / 4) < 0"
    by (simp add: magnitudeToDb_def DB_SCALE_FACTOR_def)
qed

lemma normalized_quarter:
  "normalizeDb (magnitudeToDbOf (Num (1 / 4))) (Num (- 80)) (Num 80)
     = Num ((magnitudeToDb (1 / 4) + 80) / 80)"
  "0 < (magnitudeToDb (1 / 4) + 80) / 80"
  using db_quarter_bounds
  by (simp_all add: normalizeDb_def Let_def magnitudeToDbOf_Num number_simps)

lemma impulseSpectra_eq:
  "impulseSpectra =
    (map (\<lambda>i. if even i then Num 1 else 0) [0..<10],
     map (\<lambda>i. if even i then Num 0 else 0) [0..<10],
     map (\<lambda>i. if even i then Num (- 7 / 2) else 0) [0..<10])"
  unfolding impulseSpectra_def rectCoeffs_tuple
  by (subst frameTransforms_impulse [OF sub0]) simp_all

lemma zeroSpectra_contribution:
  "bin < 5 \<Longrightarrow> 0 < hop \<Longrightarrow>
   binContribution 8 hop nb nfr nf g r frame
     (map (\<lambda>i. if even i then Num 0 else 0) [0..<10],
      map (\<lambda>i. if even i then Num 0 else 0) [0..<10],
      map (\<lambda>i. if even i then Num 0 else 0) [0..<10]) bin = None"
  unfolding binContribution_def reassignedCoordinates_def fst_conv snd_conv
  by (subst binCorrections_impulse) simp_all

lemma impulse_corrections:
  "bin < 5 \<Longrightarrow>
   binCorrections 8 4 bin (fst impulseSpectra) (fst (snd impulseSpectra))
     (snd (snd impulseSpectra)) = Some (0, - 7 / 8, 1)"
  unfolding impulseSpectra_eq fst_conv snd_conv
  by (subst binCorrections_impulse) (simp_all add: number_simps)

lemma toInt32_values: "toInt32 (7 / 2) = 3" "toInt32 (9 / 2) = 4" "toInt32 (- (3 / 8)) = 0"
  "toInt32 (1 / 2) = 0"
  by (simp_all add: toInt32_def Let_def)

lemma impulse_coordinates:
  "reassignedCoordinates 8 4 0 3 (fst impulseSpectra) (fst (snd impulseSpectra))
     (snd (snd impulseSpectra)) = Some (3, 0, 1)"
  "reassignedCoordinates 8 4 0 4 (fst impulseSpectra) (fst (snd impulseSpectra))
     (snd (snd impulseSpectra)) = Some (4, 0, 1)"
  unfolding reassignedCoordinates_def
  by (simp_all add: impulse_corrections Let_def number_simps toInt32_values)

lemma impulse_contribution:
  "binContribution 8 4 5 3 (Num 4) (Num (- 80)) (Num 80) 0 impulseSpectra 3
     = Some (3, (magnitudeToDb (1 / 4) + 80) / 80)"
  "binContribution 8 4 5 3 (Num 4) (Num (- 80)) (Num 80) 0 impulseSpectra 4
     = Some (4, (magnitudeToDb (1 / 4) + 80) / 80)"
  unfolding binContribution_def
  by (simp_all add: impulse_coordinates Let_def one_number_def divide_number_def normalized_quarter)

lemma upt_3_5: "[3..<5] = [3, 4]" "[0..<3] = [0, 1, 2]"
  by (simp_all add: upt_rec)

lemma example_contributions:
  "reassignmentContributions (1 # replicate 15 0) (dftContext 8) 4 Rectangular 1 0 80
     = [(3, (magnitudeToDb (1 / 4) + 80) / 80), (4, (magnitudeToDb (1 / 4) + 80) / 80)]"
proof -
  let ?smp = "1 # replicate 15 (0::number)"
  let ?Z = "(map (\<lambda>i. if even i then Num 0 else 0) [0..<10],
      map (\<lambda>i. if even i then Num 0 else 0) [0..<10],
      map (\<lambda>i. if even i then Num 0 else (0::number)) [0..<10])"
  have c: "ctx_size (dftContext 8) = 8" by (simp add: dftContext_def)
  have t0: "fst (frameTransforms ?smp (dftContext 8) 4 8 1 rectCoeffs 0
              (replicate 8 0, replicate 8 0, replicate 8 0)) = impulseSpectra"
    by (simp add: impulseSpectra_def)
  have len: "length (fst (snd (frameTransforms ?smp (dftContext 8) 4 8 1 rectCoeffs f bufs))) = 8 \<and>
      length (fst (snd (snd (frameTransforms ?smp (dftContext 8) 4 8 1 rectCoeffs f bufs)))) = 8 \<and>
      length (snd (snd (snd (frameTransforms ?smp (dftContext 8) 4 8 1 rectCoeffs f bufs)))) = 8"
    if "subarray ?smp (f * 4) (f * 4 + 8) = Num a # replicate 7 0"
      "length (fst bufs) = 8" "length (fst (snd bufs)) = 8" "length (snd (snd bufs)) = 8"
    for f a bufs
    unfolding rectCoeffs_tuple
    by (subst frameTransforms_impulse [OF that], simp, simp, simp)+ simp
  have tz: "fst (frameTransforms ?smp (dftContext 8) 4 8 1 rectCoeffs f bufs) = ?Z"
    if "subarray ?smp (f * 4) (f * 4 + 8) = Num 0 # replicate 7 0"
      "length (fst bufs) = 8" "length (fst (snd bufs)) = 8" "length (snd (snd bufs)) = 8"
    for f bufs
    unfolding rectCoeffs_tuple
    by (subst frameTransforms_impulse [OF that]) simp_all
  have f0: "frameContributions 8 4 5 3 (Num 4) (Num (- 80)) (Num 80) 0 impulseSpectra
      = [(3, (magnitudeToDb (1 / 4) + 80) / 80), (4, (magnitudeToDb (1 / 4) + 80) / 80)]"
    unfolding frameContributions_def upt_3_5
    by (simp add: impulse_contribution)
  have fz: "frameContributions 8 4 5 3 (Num 4) (Num (- 80)) (Num 80) f ?Z = []" for f
    unfolding frameContributions_def upt_3_5
    by (simp only: map_filter_simps) (simp add: zeroSpectra_contribution)
  define b0 :: "number list \<times> number list \<times> number list"
    where "b0 = (replicate 8 0, replicate 8 0, replicate 8 0)"
  define b1 where "b1 = snd (frameTransforms ?smp (dftContext 8) 4 8 1 rectCoeffs 0 b0)"
  define b2 where "b2 = snd (frameTransforms ?smp (dftContext 8) 4 8 1 rectCoeffs 1 b1)"
  have l0: "length (fst b0) = 8" "length (fst (snd b0)) = 8" "length (snd (snd b0)) = 8"
    by (simp_all add: b0_def)
  have l1: "length (fst b1) = 8" "length (fst (snd b1)) = 8" "length (snd (snd b1)) = 8"
    unfolding b1_def using len [OF sub0 l0] by simp_all
  have l2: "length (fst b2) = 8" "length (fst (snd b2)) = 8" "length (snd (snd b2)) = 8"
    unfolding b2_def using len [OF sub1 l1] by simp_all
  have x0: "fst (frameTransforms ?smp (dftContext 8) 4 8 1 rectCoeffs 0 b0) = impulseSpectra"
    using t0 by (simp add: b0_def)
  have x1: "fst (frameTransforms ?smp (dftContext 8) 4 8 1 rectCoeffs 1 b1) = ?Z"
    by (rule tz [OF sub1 l1])
  have x2: "fst (frameTransforms ?smp (dftContext 8) 4 8 1 rectCoeffs 2 b2) = ?Z"
    by (rule tz [OF sub2 l2])
  have w: "natOf (windowSizeOf 8 1) = 8" by (simp add: windowSizeOf_def number_simps)
  have n: "natOf (frameCount (length ?smp) (windowSizeOf 8 1) 4) = 3"
    by (simp add: frameCount_def windowSizeOf_def number_simps)
  have five: "8 div 2 + 1 = (5::nat)" by simp
  have nf: "num 8 * WINDOW_COHERENT_GAIN Rectangular / 2 = Num 4" by (simp add: number_simps)
  have go: "(0::number) - Num 80 = Num (- 80)" by (simp add: number_simps)
  have r80: "(80::number) = Num 80" by (simp add: number_simps)
  have "reassignmentContributions ?smp (dftContext 8) 4 Rectangular 1 0 80
      = loopContributions ?smp (dftContext 8) 4 8 1 rectCoeffs 3 (Num 4) (Num (- 80)) (Num 80)
          [0, 1, 2] b0"
    unfolding reassignmentContributions_def Let_def c w n nf go r80 upt_3_5
    by (simp only: rectCoeffs_def b0_def)
  also have "\<dots> = [(3, (magnitudeToDb (1 / 4) + 80) / 80), (4, (magnitudeToDb (1 / 4) + 80) / 80)]"
    unfolding loopContributions.simps Let_def c five x0 f0 b1_def [symmetric] x1 fz
      b2_def [symmetric] x2
    by simp
  finally show ?thesis .
qed

text \<open>
  C4: the reassigned coordinates are \<open>(x + 0.5) | 0\<close>, which truncates towards zero;
  for a negative \<open>x + 0.5\<close> this is not the round-half-up value \<open>floor(x + 0.5)\<close>.
  For an impulse at the first sample (rectangular window, transform size 8, hop size 4)
  the time correction of bin 3 of frame 0 is \<open>-7/8\<close> frame: rounding half up gives frame
  \<open>-1\<close>, outside the matrix, while the code computes frame 0 and accumulates the
  contribution there, so the cell of frame 0 and bin 3 becomes positive.
\<close>

theorem reassigned_frame_truncated:
  "binCorrections 8 4 3 (fst impulseSpectra) (fst (snd impulseSpectra))
     (snd (snd impulseSpectra)) = Some (0, - 7 / 8, 1) \<and>
   jsRound (real 0 + (- 7 / 8)) = - 1 \<and>
   reassignedCoordinates 8 4 0 3 (fst impulseSpectra) (fst (snd impulseSpectra))
     (snd (snd impulseSpectra)) = Some (3, 0, 1) \<and>
   reassignmentContributions (1 # replicate 15 0) (dftContext 8) 4 Rectangular 1 0 80
     = [(3, (magnitudeToDb (1 / 4) + 80) / 80), (4, (magnitudeToDb (1 / 4) + 80) / 80)] \<and>
   map_sum id (\<lambda>r. 0 < fst r ! 3)
     (generateReassignedSpectrogram (1 # replicate 15 0) 8000 (dftContext 8) 4 Rectangular 1 0 80)
     = Inr True"
proof -
  let ?v = "(magnitudeToDb (1 / 4) + 80) / 80"
  have n: "frameCount (length (1 # replicate 15 (0::number)))
             (windowSizeOf (ctx_size (dftContext 8)) 1) 4 = Num 3"
    by (simp add: frameCount_def windowSizeOf_def dftContext_def number_simps)
  from generateReassigned_outcome(2) [OF n, of 8000 Rectangular 0 80]
  obtain s where
    s: "generateReassignedSpectrogram (1 # replicate 15 0) 8000 (dftContext 8) 4 Rectangular 1 0 80
          = Inr (s, 3)"
    by auto
  have c: "3 * (ctx_size (dftContext 8) div 2 + 1) = 15" by (simp add: dftContext_def)
  have "s = fold accumulate [(3, ?v), (4, ?v)] (replicate 15 0)"
    using generateReassigned_contributions [OF s]
    unfolding example_contributions c .
  moreover have "fold accumulate [(3, ?v), (4, ?v)] (replicate 15 0) ! 3
      = fold max (cellContributions 3 [(3, ?v), (4, ?v)]) (replicate 15 (0::real) ! 3)"
    by (rule fold_accumulate_nth) simp
  ultimately have "s ! 3 = fold max (cellContributions 3 [(3, ?v), (4, ?v)]) (replicate 15 (0::real) ! 3)"
    by simp
  also have "\<dots> = ?v"
    using normalized_quarter(2) by (simp add: cellContributions_def)
  finally have pos: "0 < s ! 3" using normalized_quarter(2) by simp
  have r: "jsRound (real 0 + (- 7 / 8)) = - 1" by (simp add: jsRound_def)
  have e: "map_sum id (\<lambda>r. 0 < fst r ! 3)
     (generateReassignedSpectrogram (1 # replicate 15 0) 8000 (dftContext 8) 4 Rectangular 1 0 80)
     = Inr True"
    unfolding s using pos by simp
  have b: "binCorrections 8 4 3 (fst impulseSpectra) (fst (snd impulseSpectra))
     (snd (snd impulseSpectra)) = Some (0, - 7 / 8, 1)"
    by (rule impulse_corrections) simp
  show ?thesis
    by (intro conjI b r impulse_coordinates(1) example_contributions e)
qed

section \<open>A window of one sample\<close>

lemma hann_one_sample: "getWindowCoefficients Hann (Suc 0) StandardVariant = [NaN]"
  by (simp add: getWindowCoefficients_def number_simps Math_PI_def)

lemma dft_NaN: "ctx_run (dftContext N) (NaN # xs) i = NaN"
proof -
  have z: "(\<Sum>n\<leftarrow>[0..<Suc (length xs)]. (NaN # xs) ! n * Num (f n)) = NaN"
    for f :: "nat \<Rightarrow> real"
  proof -
    have "[0..<Suc (length xs)] = 0 # map Suc [0..<length xs]"
      by (simp add: upt_conv_Cons map_Suc_upt [symmetric] del: upt_Suc)
    then show ?thesis
      by (simp add: comp_def times_number_def plus_number_def del: upt_Suc)
  qed
  show ?thesis unfolding dftContext_def
    by (simp add: z Let_def uminus_number_def del: upt_Suc)
qed

lemma oneSampleWindow_frame:
  "standardFrame [1] (dftContext 8) 2 (Suc 0) 8 [NaN] nf g r 0 (replicate 5 0, [0])
     = ([0, 0, 0, NaN, NaN], [NaN])"
proof -
  have c: "ctx_size (dftContext 8) = 8" "ctx_isReal (dftContext 8)" by (simp_all add: dftContext_def)
  have a: "applyWindowCoefficients [1] [NaN] [0] = [NaN]"
    by (simp add: applyWindowCoefficients_def number_simps)
  have f: "runFFT (dftContext 8) (NaN # replicate 7 0) 8 = replicate 10 NaN"
    unfolding runFFT_def Let_def by (simp add: c dft_NaN list_eq_iff_nth_eq del: upt_Suc)
  have m: "computeMagnitudeInPlace (replicate 10 NaN) 5 = replicate 5 NaN"
    unfolding computeMagnitudeInPlace_def Let_def
    by (simp add: list_eq_iff_nth_eq times_number_def plus_number_def del: upt_Suc)
  have n: "normalizeDb (magnitudeToDbOf (NaN / nf)) g r = NaN"
    by (simp add: normalizeDb_def magnitudeToDbOf_def Let_def number_simps)
  have w: "writeFrame (replicate 5 0) 0 5 (replicate 5 NaN) nf g r = [0, 0, 0, NaN, NaN]"
    unfolding writeFrame_def Let_def upt_3_5
    by (simp add: n numeral_eq_Suc)
  show ?thesis
    unfolding standardFrame_def processStandardFrame_def Let_def c fst_conv snd_conv
    by (simp add: subarray_def a zeroPadInput_def f m w del: replicate.simps)
qed

text \<open>
  C1: a call with a window of one sample (transform size 8, zero-padding factor 8) and
  the Hann window succeeds with one frame of 5 bins, and the standard algorithm returns
  \<open>NaN\<close> at the bins 3 and 4: the window coefficient \<open>0.5 * (1 - cos (0 / 0))\<close> is
  \<open>NaN\<close>, and the clamp \<open>normalized < 0 ? 0 : normalized > 1 ? 1 : normalized\<close> lets a
  \<open>NaN\<close> through.
\<close>

theorem one_sample_window_gives_NaN:
  "getWindowCoefficients Hann 1 StandardVariant = [NaN] \<and>
   map_sum id (\<lambda>res. (numFrames res, numBins res, data res))
     (generateSpectrogram oneSampleWindowExample) = Inr (1, 5, [0, 0, 0, NaN, NaN])"
proof -
  have e: "ctx_size (dftContext 8) = 8" by (simp add: dftContext_def)
  have w: "windowSizeOf 8 8 = Num 1" by (simp add: windowSizeOf_def number_simps)
  have f: "frameCount (length [1::number]) (Num 1) 2 = Num 1"
    by (simp add: frameCount_def number_simps)
  have le: "\<not> Num 1 \<le> (0::number)" by (simp add: number_simps)
  have g: "generateStandardSpectrogram [1] 8000 (dftContext 8) 2 Hann 8 0 80
      = Inr ([0, 0, 0, NaN, NaN], 1)"
    unfolding generateStandardSpectrogram_def Let_def e w f
    using le by (simp add: hann_one_sample oneSampleWindow_frame)
  have "generateSpectrogram oneSampleWindowExample
      = Inr \<lparr> data = [0, 0, 0, NaN, NaN], numFrames = 1, numBins = 5, fftSize = 8,
              windowSize = 1, hopSize = 2, sampleRate = 8000, duration = num 1 / 8000 \<rparr>"
    unfolding generateSpectrogram_def Let_def
    by (simp add: oneSampleWindowExample_def zeroPaddingOf_def userHopSize_def e w
        hopSizePolicy_None g)
  then show ?thesis using hann_one_sample by simp
qed

section \<open>The frame count and the outcome of a call\<close>

lemma frameCount_windowSizeOf_cases:
  fixes L f z hop
  defines "F \<equiv> frameCount L (windowSizeOf f z) hop"
  shows "0 < z \<and> 0 < hop \<and> F = Num (of_int ((int L - int (f div z)) div int hop + 1)) \<or>
         0 < z \<and> hop = 0 \<and> f div z < L \<and> F = PosInf \<or>
         0 < z \<and> hop = 0 \<and> f div z = L \<and> F = NaN \<or>
         0 < z \<and> hop = 0 \<and> L < f div z \<and> F = NegInf \<or>
         z = 0 \<and> 0 < f \<and> F = NegInf \<or>
         z = 0 \<and> f = 0 \<and> F = NaN"
proof (cases "0 < z")
  case True
  then have w: "windowSizeOf f z = num (f div z)" by (rule windowSizeOf_pos)
  show ?thesis
  proof (cases "0 < hop")
    case True
    then show ?thesis using \<open>0 < z\<close> unfolding F_def w by (simp add: frameCount_pos)
  next
    case False
    then have "hop = 0" by simp
    then show ?thesis using \<open>0 < z\<close> unfolding F_def w by (auto simp: frameCount_hop0)
  qed
next
  case False
  then show ?thesis unfolding F_def
    by (auto simp: windowSizeOf_zero frameCount_PosInf frameCount_NaN)
qed

text \<open>
  C3, as the code has it. With \<open>windowSize = floor(fftSize / zeroPadding)\<close> and the hop
  size that the call uses, let \<open>F = floor((numSamples - windowSize) / hopSize) + 1\<close>,
  computed on JavaScript numbers. The call fails with "Audio too short" exactly when
  \<open>F \<le> 0\<close>; it returns a matrix of a whole number of frames exactly when \<open>F\<close> is a
  positive finite number, and then \<open>numFrames = F\<close>; this is the case whenever \<open>F > 0\<close>
  and the hop size is positive.
  For a hop size 0 and more samples than a window, \<open>F\<close> is \<open>Infinity\<close> and the call
  fails with a \<open>RangeError\<close> of the allocation instead; where \<open>F\<close> is \<open>NaN\<close> (hop size 0
  and exactly a window of samples, or transform size and zero-padding factor both 0), the
  call returns an empty matrix with \<open>numFrames = NaN\<close>.
\<close>

theorem frame_count_and_insufficient_audio:
  fixes opts :: SpectrogramOptions
  defines "W \<equiv> windowSizeOf (ctx_size (opt_fftContext opts)) (zeroPaddingOf opts)"
  defines "hop \<equiv> hopSizePolicy (length (opt_samples opts)) W (userHopSize opts)
                    (opt_targetWidth opts)"
  defines "F \<equiv> Math_floor ((num (length (opt_samples opts)) - W) / num hop) + 1"
  shows "(generateSpectrogram opts = Inl AudioTooShort \<longleftrightarrow> F \<le> 0) \<and>
         ((\<exists>res. generateSpectrogram opts = Inr res) \<longleftrightarrow> (\<exists>x. F = Num x \<and> 0 < x)) \<and>
         (\<forall>res. generateSpectrogram opts = Inr res \<longrightarrow>
            num (numFrames res) = F \<and> 0 < numFrames res \<and> num (windowSize res) = W \<and>
            hopSize res = hop) \<and>
         (0 < hop \<longrightarrow> 0 < F \<longrightarrow> (\<exists>res. generateSpectrogram opts = Inr res)) \<and>
         (generateSpectrogram opts = Inl InvalidArrayLength \<longleftrightarrow> F = PosInf) \<and>
         (F = PosInf \<longleftrightarrow> hop = 0 \<and> (\<exists>w. W = num w \<and> w < length (opt_samples opts))) \<and>
         (generateSpectrogram opts = Inl FrameCountNaN \<longleftrightarrow> F = NaN)"
proof -
  let ?L = "length (opt_samples opts)"
  let ?f = "ctx_size (opt_fftContext opts)"
  let ?z = "zeroPaddingOf opts"
  have F: "F = frameCount ?L W hop" by (simp add: F_def frameCount_def)
  note r = generateSpectrogram_result [of opts, folded W_def, folded hop_def, folded F]
  note cs = frameCount_windowSizeOf_cases [of ?z hop ?L ?f, folded W_def, folded F]
  have Wnum: "0 < ?z \<Longrightarrow> W = num (?f div ?z)" unfolding W_def by (rule windowSizeOf_pos)
  have W0: "?z = 0 \<Longrightarrow> W = PosInf \<or> W = NaN" unfolding W_def by (simp add: windowSizeOf_zero)
  have pinf: "F = PosInf \<longleftrightarrow> hop = 0 \<and> (\<exists>w. W = num w \<and> w < ?L)"
  proof
    assume "F = PosInf"
    then have "0 < ?z \<and> hop = 0 \<and> ?f div ?z < ?L" using cs by auto
    then show "hop = 0 \<and> (\<exists>w. W = num w \<and> w < ?L)" using Wnum by blast
  next
    assume "hop = 0 \<and> (\<exists>w. W = num w \<and> w < ?L)"
    then show "F = PosInf" unfolding F by (auto simp: frameCount_hop0)
  qed
  consider (fin) k where "0 < ?z" "0 < hop" "F = Num (of_int k)"
    | (inf) "0 < ?z" "hop = 0" "?f div ?z < ?L" "F = PosInf"
    | (nan) "F = NaN" "hop = 0 \<or> ?z = 0"
    | (neg) "F = NegInf" "hop = 0 \<or> ?z = 0"
    using cs by (elim disjE conjE) blast+
  then show ?thesis
  proof cases
    case fin
    show ?thesis
    proof (cases "0 < k")
      case True
      then have x: "0 < real_of_int k" by simp
      from r(2) [OF fin(3) x] obtain res where
        res: "generateSpectrogram opts = Inr res" "numFrames res = nat k"
          "windowSize res = natOf W" "hopSize res = hop"
        by auto
      have "num (numFrames res) = F" "0 < numFrames res" "num (windowSize res) = W"
        using res True fin Wnum by (simp_all add: num_def)
      then show ?thesis unfolding pinf [symmetric] using res fin True
        by (auto simp: less_eq_number_def less_number_def zero_number_def num_def)
    next
      case False
      then have "F \<le> 0" using fin by (simp add: less_eq_number_def zero_number_def)
      from r(1) [OF this] show ?thesis unfolding pinf [symmetric] using fin False
        by (auto simp: less_eq_number_def less_number_def zero_number_def num_def)
    qed
  next
    case inf
    from r(3) [OF inf(4)] show ?thesis unfolding pinf [symmetric] using inf
      by (auto simp: less_eq_number_def less_number_def zero_number_def)
  next
    case nan
    from r(4) [OF nan(1)] show ?thesis unfolding pinf [symmetric] using nan
      by (auto simp: less_eq_number_def less_number_def zero_number_def)
  next
    case neg
    then have "F \<le> 0" by (simp add: less_eq_number_def zero_number_def)
    from r(1) [OF this] show ?thesis unfolding pinf [symmetric] using neg
      by (auto simp: less_eq_number_def less_number_def zero_number_def)
  qed
qed

theorem frame_count_and_insufficient_audio_witness:
  "generateSpectrogram exampleOptions \<noteq> Inl AudioTooShort \<and>
   (\<exists>res. generateSpectrogram exampleOptions = Inr res \<and> numFrames res = 3 \<and>
      windowSize res = 8 \<and> hopSize res = 4)"
proof -
  have e: "windowSizeOf (ctx_size (opt_fftContext exampleOptions)) (zeroPaddingOf exampleOptions)
             = num 8"
    "length (opt_samples exampleOptions) = 16" "userHopSize exampleOptions = 4"
    "opt_targetWidth exampleOptions = None"
    by (simp_all add: exampleOptions_def userHopSize_def zeroPaddingOf_def dftContext_def
        windowSizeOf_pos)
  have f: "Math_floor ((num 16 - num 8) / num 4) + 1 = Num 3" by (simp add: number_simps)
  note t = frame_count_and_insufficient_audio [of exampleOptions, unfolded e hopSizePolicy_None f]
  from t have a: "generateSpectrogram exampleOptions \<noteq> Inl AudioTooShort"
    by (simp add: less_eq_number_def zero_number_def)
  from t obtain res where r: "generateSpectrogram exampleOptions = Inr res" by auto
  with t have "num (numFrames res) = Num 3 \<and> num (windowSize res) = num 8 \<and> hopSize res = 4"
    by blast
  then have "numFrames res = 3 \<and> windowSize res = 8 \<and> hopSize res = 4"
    by (simp add: num_def)
  then show ?thesis using a r by blast
qed

text \<open>
  C3 as stated fails for a hop size of 0: more samples than a window give neither of the
  two outcomes. For 16 samples, a window of 8 samples and a hop size of 0 the frame count is
  \<open>Infinity\<close>, which is not \<open>\<le> 0\<close>, and the call neither fails with "Audio too short"
  nor returns a frame count: the allocation throws.
\<close>

theorem hop_zero_counterexample:
  "userHopSize hopZeroExample = 0 \<and>
   windowSizeOf (ctx_size (opt_fftContext hopZeroExample)) (zeroPaddingOf hopZeroExample) = 8 \<and>
   frameCount (length (opt_samples hopZeroExample)) 8 0 = PosInf \<and>
   (PosInf \<le> (0::number)) = False \<and>
   generateSpectrogram hopZeroExample = Inl InvalidArrayLength"
proof -
  have e: "windowSizeOf (ctx_size (opt_fftContext hopZeroExample)) (zeroPaddingOf hopZeroExample)
             = num 8"
    "length (opt_samples hopZeroExample) = 16" "userHopSize hopZeroExample = 0"
    "opt_targetWidth hopZeroExample = None"
    by (simp_all add: hopZeroExample_def userHopSize_def zeroPaddingOf_def dftContext_def
        windowSizeOf_pos)
  have k: "(8::number) = num 8" by (simp add: number_simps)
  have f: "frameCount 16 (num 8) 0 = PosInf" by (simp add: frameCount_hop0)
  from generateSpectrogram_result(3) [of hopZeroExample, unfolded e hopSizePolicy_None, OF f]
  have "generateSpectrogram hopZeroExample = Inl InvalidArrayLength" .
  then show ?thesis unfolding k using e f by (simp add: less_eq_number_def zero_number_def)
qed

section \<open>The reads of the frame loops\<close>

lemma frames_fit:
  assumes "0 < hop" "int f < (int L - int W) div int hop + 1"
  shows "f * hop + W \<le> L"
proof -
  let ?D = "int L - int W"
  have q: "int f \<le> ?D div int hop" using assms(2) by simp
  have "int f * int hop \<le> (?D div int hop) * int hop"
    using q by (intro mult_right_mono) simp_all
  also have "\<dots> \<le> ?D" using assms(1)
  proof -
    have "0 \<le> ?D mod int hop" using assms(1) by simp
    moreover have "?D = (?D div int hop) * int hop + ?D mod int hop" by simp
    ultimately show ?thesis by linarith
  qed
  finally have "int (f * hop) + int W \<le> int L" by simp
  then show ?thesis by linarith
qed

lemma subarray_in_bounds:
  "f * hop + w \<le> length xs \<Longrightarrow> subarray xs (f * hop) (f * hop + w) = frameWindow xs hop w f"
  unfolding subarray_def frameWindow_def
  by (auto simp: list_eq_iff_nth_eq)

lemma generateStandard_SomeD:
  assumes "generateStandardSpectrogram smp rate c hop wt z gn r = Inr (s, n)"
  shows "\<exists>x. frameCount (length smp) (windowSizeOf (ctx_size c) z) hop = Num x \<and> 0 < x \<and>
           n = nat \<lfloor>x\<rfloor> \<and>
           s = fst (fold (standardFrame smp c hop (natOf (windowSizeOf (ctx_size c) z)) z
              (getWindowCoefficients wt (natOf (windowSizeOf (ctx_size c) z)) StandardVariant)
              (num (ctx_size c) * WINDOW_COHERENT_GAIN wt / 2) (gn - r) r)
            [0..<n]
            (replicate (n * (ctx_size c div 2 + 1)) 0,
             replicate (natOf (windowSizeOf (ctx_size c) z)) 0))"
  using assms
  unfolding generateStandardSpectrogram_def Let_def
  by (auto split: if_splits number.splits simp: less_eq_number_def zero_number_def
      simp del: One_nat_def)

lemma fold_cong_set: "(\<And>x. x \<in> set xs \<Longrightarrow> f x = g x) \<Longrightarrow> fold f xs a = fold g xs a"
  by (rule fold_cong) simp_all

lemma frameLoops_in_bounds:
  fixes smp :: "number list"
  assumes "1 \<le> hop"
    and "frameCount (length smp) (windowSizeOf (ctx_size c) z) hop = Num n" and "0 < n"
  shows "\<exists>w. windowSizeOf (ctx_size c) z = num w \<and>
           (\<forall>f < nat \<lfloor>n\<rfloor>. f * hop + w \<le> length smp \<and>
              subarray smp (f * hop) (f * hop + w) = frameWindow smp hop w f \<and>
              length (frameWindow smp hop w f) = w) \<and>
           generateStandardSpectrogram smp rate c hop wt z gn r =
             Inr (fst (fold (\<lambda>f. processStandardFrame (frameWindow smp hop w f) c w z
                                   (getWindowCoefficients wt w StandardVariant)
                                   (num (ctx_size c) * WINDOW_COHERENT_GAIN wt / 2) (gn - r) r f)
                         [0..<nat \<lfloor>n\<rfloor>]
                         (replicate (nat \<lfloor>n\<rfloor> * (ctx_size c div 2 + 1)) 0, replicate w 0)),
                  nat \<lfloor>n\<rfloor>) \<and>
           generateReassignedSpectrogram smp rate c hop wt z gn r =
             Inr (fst (fold (\<lambda>f. processReassignedFrame (frameWindow smp hop w f) c hop w z
                                   (getWindowCoefficients wt w StandardVariant,
                                    getWindowCoefficients wt w Derivative,
                                    getWindowCoefficients wt w TimeRamped)
                                   (nat \<lfloor>n\<rfloor>)
                                   (num (ctx_size c) * WINDOW_COHERENT_GAIN wt / 2) (gn - r) r f)
                         [0..<nat \<lfloor>n\<rfloor>]
                         (replicate (nat \<lfloor>n\<rfloor> * (ctx_size c div 2 + 1)) 0,
                          replicate w 0, replicate w 0, replicate w 0)),
                  nat \<lfloor>n\<rfloor>)"
proof -
  let ?L = "length smp"
  define w where "w = ctx_size c div z"
  define k where "k = (int ?L - int w) div int hop + 1"
  define N where "N = nat \<lfloor>n\<rfloor>"
  have hop: "0 < hop" using assms(1) by simp
  from frameCount_windowSizeOf_cases [of z hop ?L "ctx_size c"] assms(2) hop
  have z: "0 < z" and n: "n = of_int k" unfolding k_def w_def by auto
  have W: "windowSizeOf (ctx_size c) z = num w" unfolding w_def using z by (rule windowSizeOf_pos)
  have nW: "natOf (windowSizeOf (ctx_size c) z) = w" unfolding W by (simp add: num_def)
  have N: "N = nat k" unfolding N_def n by simp
  have fit: "f * hop + w \<le> ?L" if "f < N" for f
  proof -
    have "int f < k" using that N by linarith
    then show ?thesis unfolding k_def by (rule frames_fit [OF hop])
  qed
  have sub: "subarray smp (f * hop) (f * hop + w) = frameWindow smp hop w f" if "f < N" for f
    using fit [OF that] by (rule subarray_in_bounds)
  have len: "length (frameWindow smp hop w f) = w" for f by (simp add: frameWindow_def)
  from generateStandard_outcome(2) [OF assms(2,3)] obtain s1 where
    s1: "generateStandardSpectrogram smp rate c hop wt z gn r = Inr (s1, N)"
    unfolding N_def by blast
  from generateStandard_SomeD [OF s1]
  have s1': "s1 = fst (fold (standardFrame smp c hop w z (getWindowCoefficients wt w StandardVariant)
              (num (ctx_size c) * WINDOW_COHERENT_GAIN wt / 2) (gn - r) r)
            [0..<N] (replicate (N * (ctx_size c div 2 + 1)) 0, replicate w 0))"
    unfolding nW by blast
  have st: "standardFrame smp c hop w z co nf g rr f = processStandardFrame (frameWindow smp hop w f) c w z co nf g rr f"
    if "f \<in> set [0..<N]" for f co nf g rr
  proof -
    have "f < N" using that by simp
    then show ?thesis unfolding standardFrame_def Let_def by (simp only: sub)
  qed
  from generateReassigned_outcome(2) [OF assms(2,3)] obtain s2 where
    s2: "generateReassignedSpectrogram smp rate c hop wt z gn r = Inr (s2, N)"
    unfolding N_def by blast
  from generateReassigned_SomeD [OF s2]
  have s2': "s2 = fst (fold (reassignedFrame smp c hop w z
              (getWindowCoefficients wt w StandardVariant, getWindowCoefficients wt w Derivative,
               getWindowCoefficients wt w TimeRamped)
              N (num (ctx_size c) * WINDOW_COHERENT_GAIN wt / 2) (gn - r) r)
            [0..<N] (replicate (N * (ctx_size c div 2 + 1)) 0, replicate w 0, replicate w 0,
              replicate w 0))"
    unfolding nW by blast
  have rt: "reassignedFrame smp c hop w z co nfr nf g rr f
      = processReassignedFrame (frameWindow smp hop w f) c hop w z co nfr nf g rr f"
    if "f \<in> set [0..<N]" for f co nfr nf g rr
  proof -
    have "f < N" using that by simp
    then show ?thesis unfolding reassignedFrame_def Let_def by (simp only: sub)
  qed
  have g1: "generateStandardSpectrogram smp rate c hop wt z gn r =
      Inr (fst (fold (\<lambda>f. processStandardFrame (frameWindow smp hop w f) c w z
                        (getWindowCoefficients wt w StandardVariant)
                        (num (ctx_size c) * WINDOW_COHERENT_GAIN wt / 2) (gn - r) r f)
                  [0..<N] (replicate (N * (ctx_size c div 2 + 1)) 0, replicate w 0)), N)"
    unfolding s1 s1' by (simp only: fold_cong_set [OF st])
  have g2: "generateReassignedSpectrogram smp rate c hop wt z gn r =
      Inr (fst (fold (\<lambda>f. processReassignedFrame (frameWindow smp hop w f) c hop w z
                        (getWindowCoefficients wt w StandardVariant,
                         getWindowCoefficients wt w Derivative,
                         getWindowCoefficients wt w TimeRamped)
                        N (num (ctx_size c) * WINDOW_COHERENT_GAIN wt / 2) (gn - r) r f)
                  [0..<N] (replicate (N * (ctx_size c div 2 + 1)) 0,
                    replicate w 0, replicate w 0, replicate w 0)), N)"
    unfolding s2 s2' by (simp only: fold_cong_set [OF rt])
  show ?thesis
    unfolding N_def [symmetric]
    by (rule exI [of _ w]) (use W fit sub len g1 g2 in blast)
qed

text \<open>
  C10: with a hop size of at least 1 and a positive frame count, the frame count is a
  whole number \<open>n\<close>, and every frame the loops read lies inside the input: frame \<open>f\<close>
  starts at \<open>f * hopSize\<close> and its \<open>windowSize\<close> samples end at or before the last
  sample, so the view that the loop body extracts is exactly these \<open>windowSize\<close> input
  samples. Both generators return (the frame loops run over the \<open>n\<close> frames), and what
  they return is the result of the loops whose iteration \<open>f\<close> is given that window.
\<close>

theorem frame_reads_in_bounds:
  fixes smp :: "number list"
  assumes "1 \<le> hop"
    and "0 < frameCount (length smp) (windowSizeOf (ctx_size c) z) hop"
  shows "\<exists>w n. windowSizeOf (ctx_size c) z = num w \<and>
           frameCount (length smp) (windowSizeOf (ctx_size c) z) hop = num n \<and> 0 < n \<and>
           (\<forall>f < n. f * hop + w \<le> length smp \<and>
              subarray smp (f * hop) (f * hop + w) = frameWindow smp hop w f \<and>
              length (frameWindow smp hop w f) = w) \<and>
           generateStandardSpectrogram smp rate c hop wt z gn r =
             Inr (fst (fold (\<lambda>f. processStandardFrame (frameWindow smp hop w f) c w z
                                   (getWindowCoefficients wt w StandardVariant)
                                   (num (ctx_size c) * WINDOW_COHERENT_GAIN wt / 2) (gn - r) r f)
                         [0..<n]
                         (replicate (n * (ctx_size c div 2 + 1)) 0, replicate w 0)),
                  n) \<and>
           generateReassignedSpectrogram smp rate c hop wt z gn r =
             Inr (fst (fold (\<lambda>f. processReassignedFrame (frameWindow smp hop w f) c hop w z
                                   (getWindowCoefficients wt w StandardVariant,
                                    getWindowCoefficients wt w Derivative,
                                    getWindowCoefficients wt w TimeRamped)
                                   n (num (ctx_size c) * WINDOW_COHERENT_GAIN wt / 2) (gn - r) r f)
                         [0..<n]
                         (replicate (n * (ctx_size c div 2 + 1)) 0,
                          replicate w 0, replicate w 0, replicate w 0)),
                  n)"
proof -
  let ?F = "frameCount (length smp) (windowSizeOf (ctx_size c) z) hop"
  have hop: "0 < hop" using assms(1) by simp
  have ne: "hop \<noteq> 0" "?F \<noteq> NegInf" "?F \<noteq> NaN"
    using assms by (auto simp: less_number_def zero_number_def)
  from frameCount_windowSizeOf_cases [of z hop "length smp" "ctx_size c"] ne
  obtain k where k: "?F = Num (of_int k)"
    by blast
  then have "0 < k" using assms(2) by (simp add: less_number_def zero_number_def)
  then have x: "0 < real_of_int k" by simp
  have n: "nat \<lfloor>real_of_int k\<rfloor> = nat k" by simp
  have F: "?F = num (nat k)" "0 < nat k" using k \<open>0 < k\<close> by (simp_all add: num_def)
  from frameLoops_in_bounds [OF assms(1) k x, of rate wt gn r] show ?thesis
    unfolding n using F by blast
qed

theorem frame_reads_in_bounds_witness:
  "(1::nat) \<le> 4 \<and>
   0 < frameCount (length (1 # replicate 15 (0::number))) (windowSizeOf (ctx_size (dftContext 8)) 1) 4 \<and>
   frameCount (length (1 # replicate 15 (0::number))) (windowSizeOf (ctx_size (dftContext 8)) 1) 4
     = num 3 \<and>
   2 * 4 + 8 \<le> length (1 # replicate 15 (0::number)) \<and>
   subarray (1 # replicate 15 (0::number)) (2 * 4) (2 * 4 + 8)
     = frameWindow (1 # replicate 15 0) 4 8 2 \<and>
   (\<exists>s. generateStandardSpectrogram (1 # replicate 15 0) 8000 (dftContext 8) 4 Hann 1 0 80
          = Inr (s, 3))"
proof -
  let ?smp = "1 # replicate 15 (0::number)"
  have a: "(1::nat) \<le> 4" by simp
  have b: "frameCount (length ?smp) (windowSizeOf (ctx_size (dftContext 8)) 1) 4 = num 3"
    by (simp add: frameCount_def windowSizeOf_def dftContext_def number_simps)
  have c: "0 < frameCount (length ?smp) (windowSizeOf (ctx_size (dftContext 8)) 1) 4"
    unfolding b by (simp add: number_simps)
  have W: "windowSizeOf (ctx_size (dftContext 8)) 1 = num 8"
    by (simp add: windowSizeOf_pos dftContext_def)
  from frame_reads_in_bounds [OF a c, of 8000 Hann 0 80]
  obtain w n where w: "windowSizeOf (ctx_size (dftContext 8)) 1 = num w"
    and n: "frameCount (length ?smp) (windowSizeOf (ctx_size (dftContext 8)) 1) 4 = num n"
    and f: "\<forall>f < n. f * 4 + w \<le> length ?smp \<and>
              subarray ?smp (f * 4) (f * 4 + w) = frameWindow ?smp 4 w f \<and>
              length (frameWindow ?smp 4 w f) = w"
    and g: "\<exists>s. generateStandardSpectrogram ?smp 8000 (dftContext 8) 4 Hann 1 0 80 = Inr (s, n)"
    by blast
  have w8: "w = 8" using w W by (simp add: num_def)
  have n3: "n = 3" using n b by (simp add: num_def)
  have "(2::nat) < n" unfolding n3 by simp
  with f have "2 * 4 + w \<le> length ?smp \<and>
      subarray ?smp (2 * 4) (2 * 4 + w) = frameWindow ?smp 4 w 2" by blast
  then show ?thesis using a b c g unfolding w8 n3 by simp
qed

section \<open>Invariant of the matrix of the standard algorithm\<close>

lemma cellsOkOrNaN_replicate: "cellsOkOrNaN nBins (replicate n 0)"
  by (simp add: cellsOkOrNaN_def zero_number_def)

lemma cellsOkOrNaN_update:
  assumes "cellsOkOrNaN nBins s" "v = NaN \<or> (\<exists>x. v = Num x \<and> 0 \<le> x \<and> x \<le> 1)"
    "k mod nBins < 3 \<longrightarrow> v = 0"
  shows "cellsOkOrNaN nBins (s[k := v])"
  unfolding cellsOkOrNaN_def
proof (intro allI impI)
  fix i
  assume i: "i < length (s[k := v])"
  show "(s[k := v] ! i = NaN \<or> (\<exists>x. s[k := v] ! i = Num x \<and> 0 \<le> x \<and> x \<le> 1)) \<and>
        (i mod nBins < 3 \<longrightarrow> s[k := v] ! i = 0)"
  proof (cases "i = k")
    case True
    with i assms(2,3) show ?thesis by simp
  next
    case False
    with i assms(1) show ?thesis unfolding cellsOkOrNaN_def by simp
  qed
qed

lemma fold_clear_ok:
  "cellsOkOrNaN nBins s \<Longrightarrow> cellsOkOrNaN nBins (fold (\<lambda>bin s. s[off + bin := 0]) bs s)"
proof (induction bs arbitrary: s)
  case Nil
  then show ?case by simp
next
  case (Cons b bs)
  have "cellsOkOrNaN nBins (s[off + b := 0])"
    using Cons.prems by (rule cellsOkOrNaN_update) (simp_all add: zero_number_def)
  then show ?case using Cons.IH by simp
qed

lemma fold_clear_length: "length (fold (\<lambda>bin s. s[f bin := g bin]) bs s) = length s"
  by (induction bs arbitrary: s) simp_all

lemma fold_write_ok:
  "cellsOkOrNaN nBins s \<Longrightarrow> \<forall>bin\<in>set bs. 3 \<le> bin \<and> bin < nBins \<Longrightarrow>
   cellsOkOrNaN nBins (fold (\<lambda>bin s. s[frame * nBins + bin := normalizeDb (d bin) g r]) bs s)"
proof (induction bs arbitrary: s)
  case Nil
  then show ?case by simp
next
  case (Cons b bs)
  have "(frame * nBins + b) mod nBins = b" using Cons.prems(2) by simp
  then have "cellsOkOrNaN nBins (s[frame * nBins + b := normalizeDb (d b) g r])"
    using Cons.prems normalizeDb_cases [of "d b" g r] by (intro cellsOkOrNaN_update) auto
  then show ?case using Cons by simp
qed

lemma writeFrame_ok:
  "cellsOkOrNaN nBins s \<Longrightarrow> cellsOkOrNaN nBins (writeFrame s (frame * nBins) nBins m nf g r)"
  unfolding writeFrame_def Let_def
  by (rule fold_write_ok) (auto intro: fold_clear_ok)

lemma writeFrame_length: "length (writeFrame s off nBins m nf g r) = length s"
  unfolding writeFrame_def Let_def by (simp add: fold_clear_length)

lemma standardFrame_ok:
  "cellsOkOrNaN (ctx_size c div 2 + 1) (fst st) \<Longrightarrow>
   cellsOkOrNaN (ctx_size c div 2 + 1) (fst (standardFrame smp c hop w z co nf g r frame st))"
  unfolding standardFrame_def processStandardFrame_def Let_def fst_conv by (rule writeFrame_ok)

lemma standardFrame_length:
  "length (fst (standardFrame smp c hop w z co nf g r frame st)) = length (fst st)"
  unfolding standardFrame_def processStandardFrame_def Let_def by (simp add: writeFrame_length)

lemma standardLoop_ok:
  "cellsOkOrNaN (ctx_size c div 2 + 1) (fst st) \<Longrightarrow>
   cellsOkOrNaN (ctx_size c div 2 + 1) (fst (fold (standardFrame smp c hop w z co nf g r) fs st))"
  by (induction fs arbitrary: st) (simp_all add: standardFrame_ok del: One_nat_def add_Suc_right)

lemma standardLoop_length:
  "length (fst (fold (standardFrame smp c hop w z co nf g r) fs st)) = length (fst st)"
  by (induction fs arbitrary: st) (simp_all add: standardFrame_length)

lemma generateStandard_ok:
  assumes "generateStandardSpectrogram smp rate c hop wt z gn r = Inr (s, n)"
  shows "cellsOkOrNaN (ctx_size c div 2 + 1) s \<and> length s = n * (ctx_size c div 2 + 1) \<and> 0 < n"
proof -
  from generateStandard_SomeD [OF assms] obtain x where
    x: "frameCount (length smp) (windowSizeOf (ctx_size c) z) hop = Num x" "0 < x"
    and n: "n = nat \<lfloor>x\<rfloor>"
    and s: "s = fst (fold (standardFrame smp c hop (natOf (windowSizeOf (ctx_size c) z)) z
              (getWindowCoefficients wt (natOf (windowSizeOf (ctx_size c) z)) StandardVariant)
              (num (ctx_size c) * WINDOW_COHERENT_GAIN wt / 2) (gn - r) r)
            [0..<n]
            (replicate (n * (ctx_size c div 2 + 1)) 0,
             replicate (natOf (windowSizeOf (ctx_size c) z)) 0))"
    by blast
  have "cellsOkOrNaN (ctx_size c div 2 + 1) s"
    by (subst s, rule standardLoop_ok) (simp add: cellsOkOrNaN_replicate del: One_nat_def)
  moreover have "length s = n * (ctx_size c div 2 + 1)"
    by (subst s) (simp add: standardLoop_length del: One_nat_def)
  ultimately show ?thesis using frameCount_Num_nat [OF x] n by simp
qed

lemma cellsOk_Num: "cellsOk nBins s \<Longrightarrow> cellsOkOrNaN nBins (map Num s)"
  unfolding cellsOk_def cellsOkOrNaN_def by (simp add: zero_number_def)

text \<open>
  What holds of every matrix that a generation call returns: it has
  \<open>numFrames * numBins\<close> entries with \<open>numFrames > 0\<close>, every entry lies in [0, 1] or is
  \<open>NaN\<close>, and the entries at the bins 0, 1 and 2 of every frame are 0; under the
  reassignment algorithm no entry is \<open>NaN\<close>.
\<close>

lemma generateSpectrogram_matrix:
  assumes "generateSpectrogram opts = Inr res"
  shows "0 < numFrames res \<and> length (data res) = numFrames res * numBins res \<and>
         cellsOkOrNaN (numBins res) (data res) \<and>
         (opt_algorithm opts = Some Reassignment \<longrightarrow> NaN \<notin> set (data res))"
proof -
  let ?c = "opt_fftContext opts"
  let ?hop = "hopSizePolicy (length (opt_samples opts))
                (windowSizeOf (ctx_size ?c) (zeroPaddingOf opts))
                (userHopSize opts) (opt_targetWidth opts)"
  let ?wt = "case opt_windowType opts of None \<Rightarrow> Hann | Some w \<Rightarrow> w"
  let ?gn = "case opt_gain opts of None \<Rightarrow> 0 | Some g \<Rightarrow> g"
  let ?r = "case opt_range opts of None \<Rightarrow> 80 | Some r \<Rightarrow> r"
  let ?S = "generateStandardSpectrogram (opt_samples opts) (opt_sampleRate opts) ?c ?hop ?wt
              (zeroPaddingOf opts) ?gn ?r"
  let ?R = "generateReassignedSpectrogram (opt_samples opts) (opt_sampleRate opts) ?c ?hop ?wt
              (zeroPaddingOf opts) ?gn ?r"
  define nb where "nb = ctx_size ?c div 2 + 1"
  show ?thesis
  proof (cases "(case opt_algorithm opts of None \<Rightarrow> Standard | Some a \<Rightarrow> a) = Reassignment")
    case True
    with assms have "(case map_sum id (\<lambda>r. (map Num (fst r), snd r)) ?R of
        Inl e \<Rightarrow> None | Inr r \<Rightarrow> Some (fst r, snd r, nb)) = Some (data res, numFrames res, numBins res)"
      unfolding generateSpectrogram_def Let_def nb_def
      by (auto split: sum.splits simp del: One_nat_def)
    then obtain s where g: "?R = Inr (s, numFrames res)" and d: "data res = map Num s"
      and b: "numBins res = nb"
      by (cases ?R) auto
    from generateReassigned_ok [OF g] show ?thesis
      unfolding d b nb_def by (auto simp: cellsOk_Num)
  next
    case False
    then have a: "opt_algorithm opts \<noteq> Some Reassignment" by auto
    from assms False have "(case ?S of
        Inl e \<Rightarrow> None | Inr r \<Rightarrow> Some (fst r, snd r, nb)) = Some (data res, numFrames res, numBins res)"
      unfolding generateSpectrogram_def Let_def nb_def
      by (auto split: sum.splits simp del: One_nat_def)
    then have g: "?S = Inr (data res, numFrames res)" and b: "numBins res = nb"
      by (cases ?S; auto)+
    from generateStandard_ok [OF g] show ?thesis
      unfolding b nb_def using a by simp
  qed
qed

section \<open>Properties of the rendering\<close>












lemma writePixel_length:
  "length (writePixel lut nf db buf gains frame bin pixels) = length pixels"
  by (simp add: writePixel_def Let_def)

lemma pixelLoop_length:
  "length (fold (writePixel lut nf db buf gains frame) bins pixels) = length pixels"
  by (induction bins arbitrary: pixels) (simp_all add: writePixel_length)

lemma renderFrame_length:
  "length (fst (renderFrame m nf nb fm dm ip lut gains frame st)) = length (fst st)"
  by (simp add: renderFrame_def Let_def pixelLoop_length)

lemma renderLoop_length:
  "length (fst (fold (renderFrame m nf nb fm dm ip lut gains) frames st)) = length (fst st)"
  by (induction frames arbitrary: st) (simp_all add: renderFrame_length)

lemma renderToImageData_dimensions:
  "width (renderToImageData options) = numFrames (ropt_spectrogram options) \<and>
   height (renderToImageData options) = numBins (ropt_spectrogram options) \<and>
   length (img_data (renderToImageData options)) =
     numFrames (ropt_spectrogram options) * numBins (ropt_spectrogram options) * 4"
  by (simp add: renderToImageData_def Let_def renderLoop_length)

text \<open>
  C9: a render call that asks for an output of 10 by 10 pixels on a matrix of 2 frames and
  3 bins returns an image of width 2 and height 3 (with 4 bytes per pixel): the requested
  dimensions are not used.
\<close>

theorem render_ignores_output_dimensions:
  "ropt_outputWidth renderExample = Some 10 \<and> ropt_outputHeight renderExample = Some 10 \<and>
   width (renderToImageData renderExample) = 2 \<and>
   height (renderToImageData renderExample) = 3 \<and>
   length (img_data (renderToImageData renderExample)) = 2 * 3 * 4"
  using renderToImageData_dimensions [of renderExample]
  by (simp add: renderExample_def)

section \<open>The frequency mapping\<close>

lemma hzToMel_mono: "- 700 < a \<Longrightarrow> a \<le> b \<Longrightarrow> hzToMel a \<le> hzToMel b"
  unfolding hzToMel_def by (simp add: divide_right_mono)

lemma melToHz_mono: "a \<le> b \<Longrightarrow> melToHz a \<le> melToHz b"
  unfolding melToHz_def by (simp add: divide_right_mono)

lemma hzToErb_mono: "0 \<le> a \<Longrightarrow> a \<le> b \<Longrightarrow> hzToErb a \<le> hzToErb b"
  unfolding hzToErb_def by simp

lemma erbToHz_mono: "a \<le> b \<Longrightarrow> erbToHz a \<le> erbToHz b"
  unfolding erbToHz_def by (simp add: divide_right_mono)

lemma interp_mono:
  fixes a b :: real
  assumes "a \<le> b" "s \<le> t"
  shows "a + s * (b - a) \<le> a + t * (b - a)"
  using assms by (simp add: mult_right_mono)

lemma effectiveMinFreq_ge_1: "1 \<le> effectiveMinFreq minFreq"
  by (simp add: effectiveMinFreq_def)

lemma createFrequencyMapping_length:
  "length (createFrequencyMapping nBins rate scale displayBins minFreq maxFreq) = displayBins"
  by (cases scale) (simp_all add: createFrequencyMapping_def Let_def)

lemma hzToBark_mono: "0 \<le> a \<Longrightarrow> a \<le> b \<Longrightarrow> hzToBark a \<le> hzToBark b"
proof -
  assume a: "0 \<le> a" "a \<le> b"
  have "arctan (0.00076 * a) \<le> arctan (0.00076 * b)"
    using a by (simp add: arctan_le_iff)
  moreover have "(a / 7500) ^ 2 \<le> (b / 7500) ^ 2"
    using a by (intro power_mono) (simp_all add: divide_right_mono)
  then have "arctan ((a / 7500) ^ 2) \<le> arctan ((b / 7500) ^ 2)"
    by (simp add: arctan_le_iff)
  ultimately show ?thesis unfolding hzToBark_def by simp
qed

lemma createFrequencyMapping_nondecreasing:
  assumes "2 \<le> displayBins" and "1 \<le> nBins"
    and "effectiveMinFreq minFreq \<le> effectiveMaxFreq rate maxFreq"
    and "i \<le> j" and "j < displayBins" and "scale \<noteq> Bark"
  shows "createFrequencyMapping nBins rate scale displayBins minFreq maxFreq ! i
           \<le> createFrequencyMapping nBins rate scale displayBins minFreq maxFreq ! j"
proof -
  define lo where "lo = effectiveMinFreq minFreq"
  define hi where "hi = effectiveMaxFreq rate maxFreq"
  define pos where "pos = (\<lambda>k. real k / (real displayBins - 1))"
  define toBin where "toBin = (\<lambda>hz. (hz / (rate / 2)) * (real nBins - 1))"
  have lo1: "1 \<le> lo" unfolding lo_def by (rule effectiveMinFreq_ge_1)
  have lohi: "lo \<le> hi" unfolding lo_def hi_def by (rule assms(3))
  have "hi \<le> rate / 2" unfolding hi_def by (simp add: effectiveMaxFreq_def Let_def)
  then have rate: "0 < rate" using lo1 lohi by linarith
  have pos: "pos i \<le> pos j"
    unfolding pos_def using assms(1,4) by (simp add: divide_right_mono)
  have toBin: "toBin x \<le> toBin y" if "x \<le> y" for x y
    unfolding toBin_def using that rate assms(2)
    by (intro mult_right_mono divide_right_mono) simp_all
  have ij: "i < displayBins" "j < displayBins" using assms(4,5) by simp_all
  have nth: "map f [0..<displayBins] ! i = f i" "map f [0..<displayBins] ! j = f j"
    for f :: "nat \<Rightarrow> real"
    using ij by simp_all
  show ?thesis
  proof (cases scale)
    case Linear
    have "toBin (lo + pos i * (hi - lo)) \<le> toBin (lo + pos j * (hi - lo))"
      by (intro toBin interp_mono lohi pos)
    then show ?thesis
      unfolding createFrequencyMapping_def Let_def Linear toBin_def pos_def lo_def hi_def
      by (simp only: FrequencyScale.case nth)
  next
    case Log
    have "log 10 lo \<le> log 10 hi" using lo1 lohi by simp
    then have "log 10 lo + pos i * (log 10 hi - log 10 lo)
        \<le> log 10 lo + pos j * (log 10 hi - log 10 lo)"
      using pos by (intro interp_mono)
    then have "toBin (10 powr (log 10 lo + pos i * (log 10 hi - log 10 lo)))
        \<le> toBin (10 powr (log 10 lo + pos j * (log 10 hi - log 10 lo)))"
      by (intro toBin) simp
    then show ?thesis
      unfolding createFrequencyMapping_def Let_def Log toBin_def pos_def lo_def hi_def
      by (simp only: FrequencyScale.case nth)
  next
    case Mel
    have "hzToMel lo \<le> hzToMel hi" using lo1 lohi by (intro hzToMel_mono) simp_all
    then have "hzToMel lo + pos i * (hzToMel hi - hzToMel lo)
        \<le> hzToMel lo + pos j * (hzToMel hi - hzToMel lo)"
      using pos by (intro interp_mono)
    then have "toBin (melToHz (hzToMel lo + pos i * (hzToMel hi - hzToMel lo)))
        \<le> toBin (melToHz (hzToMel lo + pos j * (hzToMel hi - hzToMel lo)))"
      by (intro toBin melToHz_mono)
    then show ?thesis
      unfolding createFrequencyMapping_def Let_def Mel toBin_def pos_def lo_def hi_def
      by (simp only: FrequencyScale.case nth)
  next
    case Bark
    then show ?thesis using assms(6) by simp
  next
    case Erb
    have "hzToErb lo \<le> hzToErb hi" using lo1 lohi by (intro hzToErb_mono) simp_all
    then have "hzToErb lo + pos i * (hzToErb hi - hzToErb lo)
        \<le> hzToErb lo + pos j * (hzToErb hi - hzToErb lo)"
      using pos by (intro interp_mono)
    then have "toBin (erbToHz (hzToErb lo + pos i * (hzToErb hi - hzToErb lo)))
        \<le> toBin (erbToHz (hzToErb lo + pos j * (hzToErb hi - hzToErb lo)))"
      by (intro toBin erbToHz_mono)
    then show ?thesis
      unfolding createFrequencyMapping_def Let_def Erb toBin_def pos_def lo_def hi_def
      by (simp only: FrequencyScale.case nth)
  qed
qed

section \<open>Round trips of the perceptual scales\<close>

text \<open>
  The mel and ERB conversions are exact inverses of each other in real arithmetic (on
  the frequencies where the logarithm is defined); the inverse of the Bark conversion is
  a Newton iteration stopped at a tolerance of 0.001 Bark.
\<close>

lemma melToHz_hzToMel: "- 700 < x \<Longrightarrow> melToHz (hzToMel x) = x"
  by (simp add: melToHz_def hzToMel_def)

lemma erbToHz_hzToErb: "0 \<le> x \<Longrightarrow> erbToHz (hzToErb x) = x"
proof -
  assume "0 \<le> x"
  then have "0 < 1 + 437 * x / 100000" by (simp add: add_pos_nonneg)
  then show ?thesis by (simp add: erbToHz_def hzToErb_def)
qed

section \<open>A mapping that decreases\<close>

text \<open>
  C7: at a sample rate of 8000 Hz the maximum frequency 8000 Hz is clamped to the
  Nyquist frequency 4000 Hz, below the minimum frequency 5000 Hz, and the mapping of 2
  display bins onto 3 source bins decreases from 2.5 to 2, although
  \<open>minFreq \<le> maxFreq\<close>: so for the linear, the log, the mel and the ERB scale. Its
  first entry lies beyond the last source bin, 2.
\<close>

theorem frequency_mapping_decreasing:
  "(5000::real) \<le> 8000 \<and>
   effectiveMinFreq (Some 5000) = 5000 \<and> effectiveMaxFreq 8000 (Some 8000) = 4000 \<and>
   createFrequencyMapping 3 8000 Linear 2 (Some 5000) (Some 8000) = [5 / 2, 2] \<and>
   createFrequencyMapping 3 8000 Log 2 (Some 5000) (Some 8000) = [5 / 2, 2] \<and>
   createFrequencyMapping 3 8000 Mel 2 (Some 5000) (Some 8000) = [5 / 2, 2] \<and>
   createFrequencyMapping 3 8000 Erb 2 (Some 5000) (Some 8000) = [5 / 2, 2] \<and>
   createFrequencyMapping 3 8000 Linear 2 (Some 5000) (Some 8000) ! 1
     < createFrequencyMapping 3 8000 Linear 2 (Some 5000) (Some 8000) ! 0"
proof -
  have u: "[0..<2] = [0, 1]" by (simp add: upt_rec)
  have e: "effectiveMinFreq (Some 5000) = 5000" "effectiveMaxFreq 8000 (Some 8000) = 4000"
    by (simp_all add: effectiveMinFreq_def effectiveMaxFreq_def)
  have l: "createFrequencyMapping 3 8000 Linear 2 (Some 5000) (Some 8000) = [5 / 2, 2]"
    unfolding createFrequencyMapping_def Let_def e u by simp
  have g: "createFrequencyMapping 3 8000 Log 2 (Some 5000) (Some 8000) = [5 / 2, 2]"
    unfolding createFrequencyMapping_def Let_def e u by simp
  have m: "createFrequencyMapping 3 8000 Mel 2 (Some 5000) (Some 8000) = [5 / 2, 2]"
    unfolding createFrequencyMapping_def Let_def e u by (simp add: melToHz_hzToMel)
  have b: "createFrequencyMapping 3 8000 Erb 2 (Some 5000) (Some 8000) = [5 / 2, 2]"
    unfolding createFrequencyMapping_def Let_def e u by (simp add: erbToHz_hzToErb)
  show ?thesis unfolding l g m b e by simp
qed

end
